theory Spec2Isabelle
  imports Main "HOL-Library.AList"
begin

section \<open>JavaScript values, errors and the mutable world\<close>

text \<open>
  The fragment of JavaScript values that the registry handles. An object is its list of own
  enumerable properties in insertion order, with a flag that says whether
  \<^verbatim>\<open>Object.freeze\<close> has been applied to it (an array is an object whose keys are
  its indices). Function values are: the arrow functions \<^verbatim>\<open>() => v\<close> that the enrichment
  pipeline synthesises as accessors (\<open>Getter v\<close>), the imported identifier generator
  \<^verbatim>\<open>uuid\<close> (\<open>Uuid\<close>), and functions supplied from outside the module, known by
  reference only (\<open>Ext k\<close>). Numbers are integers here (so \<^verbatim>\<open>NaN\<close> is absent);
  a string is a sequence of code units that only the host's case conversions look into.
\<close>

datatype jsval =
    JUndefined
  | JNull
  | JBool bool
  | JNum int
  | JStr string
  | JObj bool "(string \<times> jsval) list"
  | Getter jsval
  | Uuid
  | Ext nat

type_synonym bag = "(string \<times> jsval) list"

text \<open>
  \<^verbatim>\<open>new Error(msg)\<close> is \<open>Error msg\<close>; \<open>TypeError\<close> is what the host raises when a
  non-function is called; \<open>Rejected v\<close> is a rejection raised by a collaborator or by a
  registered constructor.
\<close>

datatype error = Error string | TypeError | Rejected jsval

text \<open>What the registry does that can be observed from outside, in the order it happens.\<close>

datatype effect =
    Invoke jsval jsval
  | Save jsval jsval
  | Notify jsval jsval

text \<open>
  The object \<^verbatim>\<open>eventFactories\<close> has exactly the three keys \<^verbatim>\<open>CREATE\<close>,
  \<^verbatim>\<open>UPDATE\<close> and \<^verbatim>\<open>DELETE\<close>, each holding a \<^verbatim>\<open>Map\<close>. A \<^verbatim>\<open>Map\<close> with
  string keys is an association list in insertion order.
\<close>

type_synonym jsmap = "(string \<times> jsval) list"

record eventMaps =
  CREATE :: jsmap
  UPDATE :: jsmap
  DELETE :: jsmap

text \<open>
  The module-level variables \<^verbatim>\<open>modelFactories\<close> and \<^verbatim>\<open>eventFactories\<close>, the number
  of \<^verbatim>\<open>ModelFactoryInstance\<close> objects constructed so far, how many identifiers and clock
  readings have been drawn, and the log of effects.
\<close>

record world =
  modelFactories :: jsmap
  eventFactories :: eventMaps
  instances :: nat
  idsIssued :: nat
  clockReads :: nat
  trace :: "effect list"

text \<open>
  What the module consumes from outside: \<open>run k a\<close> is the settled result of calling the
  external function \<open>Ext k\<close> on \<open>a\<close> and awaiting it, \<open>uuid i\<close> is the \<open>i\<close>-th identifier
  that \<^verbatim>\<open>lib/uuid\<close> hands out, \<open>clock i\<close> is the \<open>i\<close>-th reading of
  \<^verbatim>\<open>new Date().toUTCString()\<close>, and \<open>toUpperCase\<close> and \<open>toLowerCase\<close> are the host's
  \<^verbatim>\<open>String.prototype.toUpperCase\<close> and \<^verbatim>\<open>String.prototype.toLowerCase\<close>. Nothing is
  assumed of the two conversions in the definitions; a theorem that needs a property of
  them states it.
\<close>

record env =
  run :: "nat \<Rightarrow> jsval \<Rightarrow> error + jsval"
  uuid :: "nat \<Rightarrow> string"
  clock :: "nat \<Rightarrow> string"
  toUpperCase :: "string \<Rightarrow> string"
  toLowerCase :: "string \<Rightarrow> string"

datatype factoryInstance = Instance nat

section \<open>Host operations\<close>

definition is_function :: "jsval \<Rightarrow> bool" where
  "is_function v = (case v of Getter _ \<Rightarrow> True | Uuid \<Rightarrow> True | Ext _ \<Rightarrow> True | _ \<Rightarrow> False)"

definition falsy :: "jsval \<Rightarrow> bool" where
  "falsy v = (case v of JUndefined \<Rightarrow> True | JNull \<Rightarrow> True | JBool b \<Rightarrow> \<not> b
                | JNum n \<Rightarrow> n = 0 | JStr s \<Rightarrow> s = [] | _ \<Rightarrow> False)"

text \<open>\<^verbatim>\<open>Map.prototype.has\<close>, \<^verbatim>\<open>get\<close>, \<^verbatim>\<open>set\<close> and \<^verbatim>\<open>values\<close>.\<close>

definition map_has :: "jsmap \<Rightarrow> string \<Rightarrow> bool" where
  "map_has m k = (map_of m k \<noteq> None)"

definition map_get :: "jsmap \<Rightarrow> string \<Rightarrow> jsval" where
  "map_get m k = (case map_of m k of Some v \<Rightarrow> v | None \<Rightarrow> JUndefined)"

definition map_set :: "jsmap \<Rightarrow> string \<Rightarrow> jsval \<Rightarrow> jsmap" where
  "map_set m k v = AList.update k v m"

definition map_values :: "jsmap \<Rightarrow> jsval list" where
  "map_values m = map snd m"

text \<open>Reading a property of an attribute bag: \<^verbatim>\<open>undefined\<close> when the key is absent.\<close>

definition bag_get :: "bag \<Rightarrow> string \<Rightarrow> jsval" where
  "bag_get b k = (case map_of b k of Some v \<Rightarrow> v | None \<Rightarrow> JUndefined)"

text \<open>
  \<open>decimal n\<close> is the key under which index \<open>n\<close> of a string is enumerated;
  \<open>own_props v\<close> are the own enumerable properties that a spread \<^verbatim>\<open>{...v}\<close> or
  \<^verbatim>\<open>Object.assign\<close> copies from \<open>v\<close> (for a string, one property per code unit).
\<close>

fun decimal :: "nat \<Rightarrow> string" where
  "decimal n =
     (if n < 10 then [char_of (48 + n)] else decimal (n div 10) @ [char_of (48 + n mod 10)])"

definition own_props :: "jsval \<Rightarrow> bag" where
  "own_props v =
     (case v of
        JObj _ ps \<Rightarrow> ps
      | JStr s \<Rightarrow> map (\<lambda>i. (decimal i, JStr [s ! i])) [0..<length s]
      | _ \<Rightarrow> [])"

text \<open>
  \<open>assign b src\<close> is \<^verbatim>\<open>Object.assign(b, src)\<close> on the property list: each property of
  \<open>src\<close> in turn replaces the value of an existing key in place or is appended.
  \<open>spread vs\<close> is the fresh, unfrozen object \<^verbatim>\<open>Object.assign({}, v1, ..., vn)\<close>, which
  is also what the literal \<^verbatim>\<open>{...v1, ..., ...vn}\<close> builds.
\<close>

definition assign :: "bag \<Rightarrow> bag \<Rightarrow> bag" where
  "assign b src = fold (\<lambda>(k, v) acc. AList.update k v acc) src b"

definition spread :: "bag list \<Rightarrow> bag" where
  "spread srcs = fold (\<lambda>src acc. assign acc src) srcs []"

definition freeze :: "jsval \<Rightarrow> jsval" where
  "freeze v = (case v of JObj _ ps \<Rightarrow> JObj True ps | _ \<Rightarrow> v)"

text \<open>
  Reading \<^verbatim>\<open>v.k\<close>: a \<^verbatim>\<open>TypeError\<close> on \<^verbatim>\<open>undefined\<close> and \<^verbatim>\<open>null\<close>, the own
  property on an object; inherited properties of primitives and functions are not part of
  this fragment.
\<close>

definition getProp :: "jsval \<Rightarrow> string \<Rightarrow> error + jsval" where
  "getProp v k =
     (case v of
        JUndefined \<Rightarrow> Inl TypeError
      | JNull \<Rightarrow> Inl TypeError
      | JObj _ ps \<Rightarrow> Inr (bag_get ps k)
      | _ \<Rightarrow> Inr JUndefined)"

text \<open>
  The assignment \<^verbatim>\<open>v.k = x\<close> as the host defines it, returning the value afterwards: on
  a frozen object it raises a \<^verbatim>\<open>TypeError\<close> in strict code and does nothing in sloppy
  code; on a primitive it never changes the value. The properties of function objects are
  not part of this fragment, so a function value stays as it is.
\<close>

definition setProp :: "bool \<Rightarrow> jsval \<Rightarrow> string \<Rightarrow> jsval \<Rightarrow> error + jsval" where
  "setProp strict v k x =
     (case v of
        JUndefined \<Rightarrow> Inl TypeError
      | JNull \<Rightarrow> Inl TypeError
      | JObj frozen ps \<Rightarrow>
          (if frozen then (if strict then Inl TypeError else Inr v)
           else Inr (JObj False (AList.update k x ps)))
      | Getter _ \<Rightarrow> Inr v
      | Uuid \<Rightarrow> Inr v
      | Ext _ \<Rightarrow> Inr v
      | _ \<Rightarrow> (if strict then Inl TypeError else Inr v))"

text \<open>
  Calling a value: an accessor returns what it captured, \<^verbatim>\<open>uuid\<close> returns the next
  identifier, an external function returns what the environment says, anything else is not
  callable. \<open>invoke\<close> is the call of a registered constructor, which is logged.
\<close>

fun call :: "env \<Rightarrow> jsval \<Rightarrow> jsval \<Rightarrow> world \<Rightarrow> (error + jsval) \<times> world" where
  "call en (Getter v) a w = (Inr v, w)"
| "call en Uuid a w = (Inr (JStr (uuid en (idsIssued w))), w\<lparr>idsIssued := Suc (idsIssued w)\<rparr>)"
| "call en (Ext k) a w = (run en k a, w)"
| "call en _ a w = (Inl TypeError, w)"

definition invoke :: "env \<Rightarrow> jsval \<Rightarrow> jsval \<Rightarrow> world \<Rightarrow> (error + jsval) \<times> world" where
  "invoke en f a w =
     (if is_function f then call en f a (w\<lparr>trace := trace w @ [Invoke f a]\<rparr>)
      else (Inl TypeError, w))"

section \<open>Name validation and the event naming protocol\<close>

definition EventTypes :: "(string \<times> string) list" where
  "EventTypes = [(''CREATE'', ''CREATE''), (''UPDATE'', ''UPDATE''), (''DELETE'', ''DELETE'')]"

definition checkModelName :: "env \<Rightarrow> jsval \<Rightarrow> error + string" where
  "checkModelName en modelName =
     (case modelName of
        JStr s \<Rightarrow> Inr (toUpperCase en s)
      | _ \<Rightarrow> Inl (Error ''modelName missing or invalid''))"

definition checkEventType :: "env \<Rightarrow> jsval \<Rightarrow> error + string" where
  "checkEventType en eventType =
     (case eventType of
        JStr s \<Rightarrow>
          (if toUpperCase en s \<in> set (map fst EventTypes) then Inr (toUpperCase en s)
           else Inl (Error ''eventType missing or invalid''))
      | _ \<Rightarrow> Inl (Error ''eventType missing or invalid''))"

definition createEventName :: "env \<Rightarrow> jsval \<Rightarrow> jsval \<Rightarrow> error + string" where
  "createEventName en eventType modelName =
     (case checkEventType en eventType of
        Inl e \<Rightarrow> Inl e
      | Inr t \<Rightarrow> (case checkModelName en modelName of Inl e \<Rightarrow> Inl e | Inr n \<Rightarrow> Inr (t @ n)))"

section \<open>The enrichment pipeline\<close>

text \<open>
  Each decorator takes an attribute bag and returns a new one built with
  \<^verbatim>\<open>Object.assign({}, o, {...})\<close>. They are private to the module and are only ever
  applied to object literals, so their argument is a bag.
\<close>

definition addId :: "env \<Rightarrow> bag \<Rightarrow> world \<Rightarrow> (error + bag) \<times> world" where
  "addId en obj w =
     (case call en (bag_get obj ''generateId'') JUndefined w of
        (Inl e, w') \<Rightarrow> (Inl e, w')
      | (Inr i, w') \<Rightarrow> (Inr (spread [obj, [(''id'', i), (''getId'', Getter i)]]), w'))"

definition addEventName :: "env \<Rightarrow> bag \<Rightarrow> error + bag" where
  "addEventName en obj =
     (case createEventName en (bag_get obj ''eventType'') (bag_get obj ''modelName'') of
        Inl e \<Rightarrow> Inl e
      | Inr n \<Rightarrow>
          Inr (spread [obj, [(''eventName'', JStr n), (''getEventName'', Getter (JStr n))]]))"

definition addModelName :: "bag \<Rightarrow> bag" where
  "addModelName obj =
     (let modelName = bag_get obj ''modelName''
      in spread [obj, [(''modelName'', modelName), (''getModelName'', Getter modelName)]])"

text \<open>
  \<open>propName\<close> is the inner function of \<^verbatim>\<open>addTimestamp\<close>: a falsy \<^verbatim>\<open>eventType\<close> is
  replaced by \<^verbatim>\<open>'CREATE'\<close>, and \<^verbatim>\<open>toLowerCase\<close> exists on strings only. The key is
  computed before the clock is read.
\<close>

definition propName :: "env \<Rightarrow> jsval \<Rightarrow> error + string" where
  "propName en eventType =
     (case (if falsy eventType then JStr ''CREATE'' else eventType) of
        JStr s \<Rightarrow> Inr (toLowerCase en s @ ''Time'')
      | _ \<Rightarrow> Inl TypeError)"

definition timeStamp :: "env \<Rightarrow> world \<Rightarrow> jsval \<times> world" where
  "timeStamp en w = (JStr (clock en (clockReads w)), w\<lparr>clockReads := Suc (clockReads w)\<rparr>)"

definition addTimestamp :: "env \<Rightarrow> bag \<Rightarrow> world \<Rightarrow> (error + bag) \<times> world" where
  "addTimestamp en obj w =
     (case propName en (bag_get obj ''eventType'') of
        Inl e \<Rightarrow> (Inl e, w)
      | Inr k \<Rightarrow> (case timeStamp en w of (t, w') \<Rightarrow> (Inr (spread [obj, [(k, t)]]), w')))"

text \<open>
  Modelled from the spec: \<^verbatim>\<open>lib/compose\<close> is not among the sources. The specification
  calls the pipeline a left-to-right composition of the decorators; a decorator that throws
  ends the pipeline.
\<close>

fun compose ::
  "(bag \<Rightarrow> world \<Rightarrow> (error + bag) \<times> world) list \<Rightarrow> bag \<Rightarrow> world \<Rightarrow> (error + bag) \<times> world"
where
  "compose [] obj w = (Inr obj, w)"
| "compose (f # fs) obj w =
     (case f obj w of (Inl e, w') \<Rightarrow> (Inl e, w') | (Inr obj', w') \<Rightarrow> compose fs obj' w')"

definition enrichModel :: "env \<Rightarrow> bag \<Rightarrow> world \<Rightarrow> (error + bag) \<times> world" where
  "enrichModel en =
     compose [addId en, (\<lambda>obj w. (Inr (addModelName obj), w)), addTimestamp en]"

definition enrichEvent :: "env \<Rightarrow> bag \<Rightarrow> world \<Rightarrow> (error + bag) \<times> world" where
  "enrichEvent en =
     compose [addId en, (\<lambda>obj w. (addEventName en obj, w)), addTimestamp en]"

section \<open>The factory registry\<close>

text \<open>\<^verbatim>\<open>eventFactories[eventType]\<close>: \<^verbatim>\<open>undefined\<close> for any other key.\<close>

definition ef_get :: "eventMaps \<Rightarrow> string \<Rightarrow> jsmap option" where
  "ef_get ef t =
     (if t = ''CREATE'' then Some (CREATE ef)
      else if t = ''UPDATE'' then Some (UPDATE ef)
      else if t = ''DELETE'' then Some (DELETE ef)
      else None)"

text \<open>The effect on \<^verbatim>\<open>eventFactories\<close> of mutating the map held under a key.\<close>

definition ef_put :: "eventMaps \<Rightarrow> string \<Rightarrow> jsmap \<Rightarrow> eventMaps" where
  "ef_put ef t m =
     (if t = ''CREATE'' then ef\<lparr>CREATE := m\<rparr>
      else if t = ''UPDATE'' then ef\<lparr>UPDATE := m\<rparr>
      else if t = ''DELETE'' then ef\<lparr>DELETE := m\<rparr>
      else ef)"

text \<open>
  The constructor of \<^verbatim>\<open>ModelFactoryInstance\<close> assigns fresh maps to the two module-level
  variables. The methods never read \<^verbatim>\<open>this\<close>.
\<close>

definition ModelFactoryInstance :: "world \<Rightarrow> factoryInstance \<times> world" where
  "ModelFactoryInstance w =
     (Instance (instances w),
      w\<lparr>modelFactories := [],
        eventFactories := \<lparr>CREATE = [], UPDATE = [], DELETE = []\<rparr>,
        instances := Suc (instances w)\<rparr>)"

definition registerModel ::
  "env \<Rightarrow> factoryInstance \<Rightarrow> jsval \<Rightarrow> jsval \<Rightarrow> world \<Rightarrow> (error + unit) \<times> world" where
  "registerModel en this modelName factoryFunction w =
     (case checkModelName en modelName of
        Inl e \<Rightarrow> (Inl e, w)
      | Inr n \<Rightarrow>
          (if \<not> map_has (modelFactories w) n \<and> is_function factoryFunction
           then (Inr (), w\<lparr>modelFactories := map_set (modelFactories w) n factoryFunction\<rparr>)
           else (Inr (), w)))"

definition registerEvent ::
  "env \<Rightarrow> factoryInstance \<Rightarrow> jsval \<Rightarrow> jsval \<Rightarrow> jsval \<Rightarrow> world \<Rightarrow> (error + unit) \<times> world"
where
  "registerEvent en this eventType modelName factoryFunction w =
     (case checkModelName en modelName of
        Inl e \<Rightarrow> (Inl e, w)
      | Inr n \<Rightarrow>
          (case checkEventType en eventType of
             Inl e \<Rightarrow> (Inl e, w)
           | Inr t \<Rightarrow>
               (if is_function factoryFunction
                then (case ef_get (eventFactories w) t of
                        None \<Rightarrow> (Inl TypeError, w)
                      | Some m \<Rightarrow>
                          (Inr (),
                           w\<lparr>eventFactories :=
                               ef_put (eventFactories w) t (map_set m n factoryFunction)\<rparr>))
                else (Inr (), w))))"

definition listModels :: "factoryInstance \<Rightarrow> world \<Rightarrow> jsval list" where
  "listModels this w = map_values (modelFactories w)"

text \<open>
  Modelled from the spec: \<^verbatim>\<open>Model.create\<close> (module \<^verbatim>\<open>./model\<close>) is not among the
  sources. The specification says that the registered constructor is invoked asynchronously
  with \<open>args\<close> and that the model enrichment pipeline is applied to the constructor's output
  merged with the identifier generator and the model-type name.
\<close>

definition Model_create ::
  "env \<Rightarrow> jsval \<Rightarrow> jsval \<Rightarrow> string \<Rightarrow> world \<Rightarrow> (error + jsval) \<times> world" where
  "Model_create en factory args modelName w =
     (case invoke en factory args w of
        (Inl e, w1) \<Rightarrow> (Inl e, w1)
      | (Inr model, w1) \<Rightarrow>
          (case enrichModel en
                  (spread [own_props model,
                           [(''generateId'', Uuid), (''modelName'', JStr modelName)]]) w1 of
             (Inl e, w2) \<Rightarrow> (Inl e, w2)
           | (Inr b, w2) \<Rightarrow> (Inr (JObj False b), w2)))"

definition createModel ::
  "env \<Rightarrow> factoryInstance \<Rightarrow> jsval \<Rightarrow> jsval \<Rightarrow> world \<Rightarrow> (error + jsval) \<times> world" where
  "createModel en this modelName args w =
     (case checkModelName en modelName of
        Inl e \<Rightarrow> (Inl e, w)
      | Inr n \<Rightarrow>
          (if map_has (modelFactories w) n
           then (case Model_create en (map_get (modelFactories w) n) args n w of
                   (Inl e, w') \<Rightarrow> (Inl e, w')
                 | (Inr model, w') \<Rightarrow> (Inr (freeze model), w'))
           else (Inl (Error ''unregistered model''), w)))"

definition createEvent ::
  "env \<Rightarrow> factoryInstance \<Rightarrow> jsval \<Rightarrow> jsval \<Rightarrow> jsval \<Rightarrow> world \<Rightarrow> (error + jsval) \<times> world"
where
  "createEvent en this eventType modelName args w =
     (case checkModelName en modelName of
        Inl e \<Rightarrow> (Inl e, w)
      | Inr n \<Rightarrow>
          (case checkEventType en eventType of
             Inl e \<Rightarrow> (Inl e, w)
           | Inr t \<Rightarrow>
               (case ef_get (eventFactories w) t of
                  None \<Rightarrow> (Inl TypeError, w)
                | Some m \<Rightarrow>
                    (if map_has m n
                     then (case invoke en (map_get m n) args w of
                             (Inl e, w1) \<Rightarrow> (Inl e, w1)
                           | (Inr event, w1) \<Rightarrow>
                               (case enrichEvent en
                                       (spread [own_props event,
                                                [(''generateId'', Uuid),
                                                 (''modelName'', JStr n),
                                                 (''eventType'', JStr t)]]) w1 of
                                  (Inl e, w2) \<Rightarrow> (Inl e, w2)
                                | (Inr b, w2) \<Rightarrow> (Inr (freeze (JObj False b)), w2)))
                     else (Inl (Error ''unregistered model event''), w)))))"

section \<open>The add-model use case\<close>

text \<open>
  The configuration that \<^verbatim>\<open>addModelFactory\<close> closes over: the model-type name and the
  two collaborators, each giving the settled result of its asynchronous method.
\<close>

record ModelParam =
  param_modelName :: jsval
  repository_save :: "jsval \<Rightarrow> jsval \<Rightarrow> error + unit"
  observer_notify :: "jsval \<Rightarrow> jsval \<Rightarrow> error + unit"

text \<open>
  Modelled from the spec: \<^verbatim>\<open>ModelFactory.getInstance\<close> (module \<^verbatim>\<open>../models\<close>) is not
  among the sources. The specification describes the registry as process-wide with the
  lifetime of the process, so the instance is constructed on first use only.
\<close>

definition getInstance :: "world \<Rightarrow> factoryInstance \<times> world" where
  "getInstance w = (if instances w = 0 then ModelFactoryInstance w else (Instance 0, w))"

definition addModel ::
  "env \<Rightarrow> ModelParam \<Rightarrow> jsval \<Rightarrow> world \<Rightarrow> (error + jsval) \<times> world" where
  "addModel en p input w =
     (case getInstance w of
        (factory, w0) \<Rightarrow>
     (case createModel en factory (param_modelName p) input w0 of
        (Inl e, w1) \<Rightarrow> (Inl e, w1)
      | (Inr model, w1) \<Rightarrow>
     (case createEvent en factory (JStr ''CREATE'') (param_modelName p) model w1 of
        (Inl e, w2) \<Rightarrow> (Inl e, w2)
      | (Inr event, w2) \<Rightarrow>
     (case getProp model ''id'' of
        Inl e \<Rightarrow> (Inl e, w2)
      | Inr mid \<Rightarrow>
     (case repository_save p mid model of
        Inl e \<Rightarrow> (Inl e, w2\<lparr>trace := trace w2 @ [Save mid model]\<rparr>)
      | Inr _ \<Rightarrow>
     (let w3 = w2\<lparr>trace := trace w2 @ [Save mid model]\<rparr> in
      case getProp event ''getEventName'' of
        Inl e \<Rightarrow> (Inl e, w3)
      | Inr g \<Rightarrow>
     (case call en g JUndefined w3 of
        (Inl e, w4) \<Rightarrow> (Inl e, w4)
      | (Inr name, w4) \<Rightarrow>
     (case observer_notify p name event of
        Inl e \<Rightarrow> (Inl e, w4\<lparr>trace := trace w4 @ [Notify name event]\<rparr>)
      | Inr _ \<Rightarrow> (Inr model, w4\<lparr>trace := trace w4 @ [Notify name event]\<rparr>)))))))))"

section \<open>Closed forms and fixtures\<close>

text \<open>
  The attribute bag of the event that \<^verbatim>\<open>createEvent\<close> returns, written out: \<open>t\<close> and
  \<open>n\<close> are the canonical event type and model-type name, \<open>event\<close> is what the registered
  constructor resolved to and \<open>w1\<close> the world after that call. That \<open>createEvent\<close>
  computes exactly this bag is lemma \<open>createEvent_registered\<close> below.
\<close>

definition event_bag :: "env \<Rightarrow> string \<Rightarrow> string \<Rightarrow> jsval \<Rightarrow> world \<Rightarrow> bag" where
  "event_bag en t n event w1 =
     spread
       [spread
          [spread [spread [own_props event,
                           [(''generateId'', Uuid), (''modelName'', JStr n), (''eventType'', JStr t)]],
                   [(''id'', JStr (uuid en (idsIssued w1))),
                    (''getId'', Getter (JStr (uuid en (idsIssued w1))))]],
           [(''eventName'', JStr (toUpperCase en t @ toUpperCase en n)),
            (''getEventName'', Getter (JStr (toUpperCase en t @ toUpperCase en n)))]],
        [(toLowerCase en t @ ''Time'', JStr (clock en (clockReads w1)))]]"



text \<open>
  One concrete host for evaluating the operations on concrete inputs: case conversions
  that map the ASCII letters and leave every other code unit as it is.
\<close>

definition ascii_upper_char :: "char \<Rightarrow> char" where
  "ascii_upper_char c =
     (let n = (of_char c :: nat) in if 97 \<le> n \<and> n \<le> 122 then char_of (n - 32) else c)"

definition ascii_lower_char :: "char \<Rightarrow> char" where
  "ascii_lower_char c =
     (let n = (of_char c :: nat) in if 65 \<le> n \<and> n \<le> 90 then char_of (n + 32) else c)"

definition ascii_upper :: "string \<Rightarrow> string" where
  "ascii_upper s = map ascii_upper_char s"

definition ascii_lower :: "string \<Rightarrow> string" where
  "ascii_lower s = map ascii_lower_char s"

text \<open>
  A small environment and registry on that host: \<open>Ext 0\<close> is a model constructor that
  resolves to \<^verbatim>\<open>{total: 100}\<close>, \<open>Ext 1\<close> echoes its argument, \<open>Ext 2\<close> resolves to a bag
  that already carries pipeline attributes, and every other external function rejects.
\<close>

definition demo_env :: env where
  "demo_env =
     \<lparr>run = (\<lambda>k a.
         if k = 0 then Inr (JObj False [(''total'', JNum 100)])
         else if k = 1 then Inr a
         else if k = 2 then Inr (JObj False [(''id'', JNum 7), (''eventType'', JStr ''update''),
                                            (''eventName'', JStr ''mine'')])
         else Inl (Rejected (JStr ''boom''))),
      uuid = (\<lambda>i. replicate (Suc i) CHR ''u''),
      clock = (\<lambda>i. ''now''),
      toUpperCase = ascii_upper,
      toLowerCase = ascii_lower\<rparr>"

definition empty_world :: world where
  "empty_world =
     \<lparr>modelFactories = [], eventFactories = \<lparr>CREATE = [], UPDATE = [], DELETE = []\<rparr>,
      instances = 1, idsIssued = 0, clockReads = 0, trace = []\<rparr>"

text \<open>
  The end-to-end scenario: model type \<^verbatim>\<open>Order\<close> with constructor \<open>Ext 0\<close>, its CREATE event
  with the echoing constructor \<open>Ext 1\<close>, and collaborators that always resolve.
\<close>

definition order_world :: world where
  "order_world =
     snd (registerEvent demo_env (Instance 0) (JStr ''create'') (JStr ''Order'') (Ext 1)
            (snd (registerModel demo_env (Instance 0) (JStr ''Order'') (Ext 0) empty_world)))"

definition demo_param :: ModelParam where
  "demo_param =
     \<lparr>param_modelName = JStr ''Order'',
      repository_save = (\<lambda>mid model. Inr ()),
      observer_notify = (\<lambda>name event. Inr ())\<rparr>"

text \<open>
  A second host, whose upper-casing also maps the accented Latin-1 letters and expands the
  sharp s to two letters, as \<^verbatim>\<open>String.prototype.toUpperCase\<close> does on those code units.
\<close>

definition latin_upper_char :: "char \<Rightarrow> string" where
  "latin_upper_char c =
     (let n = (of_char c :: nat) in
      if n = 223 then ''SS''
      else if (97 \<le> n \<and> n \<le> 122) \<or> (224 \<le> n \<and> n \<le> 254 \<and> n \<noteq> 247)
           then [char_of (n - 32)]
           else [c])"

definition latin_upper :: "string \<Rightarrow> string" where
  "latin_upper s = concat (map latin_upper_char s)"

definition latin_env :: env where
  "latin_env = demo_env\<lparr>toUpperCase := latin_upper\<rparr>"

section \<open>The ASCII host and name validation\<close>

lemma ascii_upper_char_idem: "ascii_upper_char (ascii_upper_char c) = ascii_upper_char c"
proof (cases "97 \<le> (of_char c :: nat) \<and> (of_char c :: nat) \<le> 122")
  case True
  then have "(of_char c :: nat) - 32 < 256" by linarith
  then have "((of_char c :: nat) - 32) mod 256 = of_char c - 32" by (rule mod_less)
  moreover from True have "\<not> 97 \<le> (of_char c :: nat) - 32" by linarith
  ultimately show ?thesis using True by (simp add: ascii_upper_char_def Let_def)
next
  case False
  then have "ascii_upper_char c = c" by (auto simp add: ascii_upper_char_def Let_def)
  then show ?thesis by simp
qed

lemma ascii_upper_idem: "ascii_upper (ascii_upper s) = ascii_upper s"
  by (simp add: ascii_upper_def ascii_upper_char_idem)

lemma demo_env_upper_idem:
  "toUpperCase demo_env (toUpperCase demo_env s) = toUpperCase demo_env s"
  by (simp add: demo_env_def ascii_upper_idem)

lemma checkEventType_Inr:
  "checkEventType en v = Inr t \<Longrightarrow>
     (\<exists>s. v = JStr s \<and> t = toUpperCase en s) \<and>
     (t = ''CREATE'' \<or> t = ''UPDATE'' \<or> t = ''DELETE'')"
  by (auto simp: checkEventType_def EventTypes_def split: jsval.splits if_splits)

lemma checkEventType_JStr:
  "toUpperCase en s \<in> {''CREATE'', ''UPDATE'', ''DELETE''} \<Longrightarrow>
   checkEventType en (JStr s) = Inr (toUpperCase en s)"
  by (simp add: checkEventType_def EventTypes_def)

lemma checkEventType_JStr_bad:
  "toUpperCase en s \<notin> {''CREATE'', ''UPDATE'', ''DELETE''} \<Longrightarrow>
   checkEventType en (JStr s) = Inl (Error ''eventType missing or invalid'')"
  by (simp add: checkEventType_def EventTypes_def)

lemma checkModelName_Inr:
  "checkModelName en v = Inr n \<Longrightarrow> \<exists>s. v = JStr s \<and> n = toUpperCase en s"
  by (auto simp: checkModelName_def split: jsval.splits)

lemma ef_get_checked: "checkEventType en v = Inr t \<Longrightarrow> ef_get ef t \<noteq> None"
  by (drule checkEventType_Inr) (auto simp: ef_get_def)

section \<open>Attribute bags\<close>

lemma map_of_assign: "map_of (assign b src) = map_of b ++ map_of (rev src)"
proof (induction src arbitrary: b)
  case Nil then show ?case by (simp add: assign_def)
next
  case (Cons p ps)
  obtain k v where p: "p = (k, v)" by (cases p)
  have "assign b (p # ps) = assign (AList.update k v b) ps"
    by (simp add: assign_def p)
  then show ?case using Cons.IH[of "AList.update k v b"]
    by (simp add: p update_conv' map_add_def fun_eq_iff split: option.splits)
qed

lemma distinct_assign: "distinct (map fst b) \<Longrightarrow> distinct (map fst (assign b src))"
  unfolding assign_def
  by (induction src arbitrary: b) (auto simp: distinct_update)

lemma distinct_spread: "distinct (map fst (spread srcs))"
proof -
  have "distinct (map fst acc) \<Longrightarrow> distinct (map fst (fold (\<lambda>src acc. assign acc src) srcs acc))" for acc
    by (induction srcs arbitrary: acc) (auto simp: distinct_assign)
  then show ?thesis by (simp add: spread_def)
qed

lemma spread_Cons2: "spread [a, b] = assign (spread [a]) b"
  by (simp add: spread_def)

lemma bag_get_spread:
  "bag_get (spread [a, b]) k =
     (case map_of (rev b) k of Some v \<Rightarrow> v | None \<Rightarrow> bag_get (spread [a]) k)"
  by (simp add: bag_get_def spread_Cons2 map_of_assign map_add_def split: option.splits)

lemma map_of_rev_distinct: "distinct (map fst xs) \<Longrightarrow> map_of (rev xs) = map_of xs"
proof (induction xs)
  case Nil then show ?case by simp
next
  case (Cons p ps)
  obtain k v where p: "p = (k, v)" by (cases p)
  from Cons.prems have k: "k \<notin> fst ` set ps" and d: "distinct (map fst ps)"
    by (auto simp: p)
  from k have "map_of ps k = None" by (simp add: map_of_eq_None_iff)
  then show ?case using Cons.IH[OF d]
    by (auto simp: p map_add_def fun_eq_iff split: option.splits)
qed

lemma bag_get_spread1: "distinct (map fst a) \<Longrightarrow> bag_get (spread [a]) k = bag_get a k"
  by (simp add: bag_get_def spread_def map_of_assign map_of_rev_distinct)

lemma bag_get_spread_idem: "bag_get (spread [spread xs]) k = bag_get (spread xs) k"
  by (simp add: bag_get_spread1 distinct_spread)

text \<open>
  The key of a timestamp ends in \<^verbatim>\<open>Time\<close>, whatever the host's lower-casing returns, so
  it is none of the keys that the other decorators and the options write.
\<close>

lemma time_key_rev: "x @ ''Time'' = k \<Longrightarrow> rev k = ''emiT'' @ rev x"
  by auto

lemma time_key_neq:
  "x @ ''Time'' \<noteq> ''id''" "x @ ''Time'' \<noteq> ''getId''" "x @ ''Time'' \<noteq> ''modelName''"
  "x @ ''Time'' \<noteq> ''eventType''" "x @ ''Time'' \<noteq> ''eventName''"
  "x @ ''Time'' \<noteq> ''getEventName''" "x @ ''Time'' \<noteq> ''generateId''"
  "x @ ''Time'' \<noteq> ''getModelName''"
  by (auto dest: time_key_rev)

lemma propName_JStr: "s \<noteq> [] \<Longrightarrow> propName en (JStr s) = Inr (toLowerCase en s @ ''Time'')"
  by (simp add: propName_def falsy_def)


section \<open>What \<open>createEvent\<close> returns\<close>

lemma enrichEvent_options:
  assumes g: "bag_get b ''generateId'' = Uuid"
    and n: "bag_get b ''modelName'' = JStr n"
    and t: "bag_get b ''eventType'' = JStr t"
    and tk: "t = ''CREATE'' \<or> t = ''UPDATE'' \<or> t = ''DELETE''"
    and b: "b = spread bs"
  shows "enrichEvent en b w =
     (if toUpperCase en t \<in> {''CREATE'', ''UPDATE'', ''DELETE''}
      then (Inr (spread
             [spread
                [spread [b, [(''id'', JStr (uuid en (idsIssued w))),
                             (''getId'', Getter (JStr (uuid en (idsIssued w))))]],
                 [(''eventName'', JStr (toUpperCase en t @ toUpperCase en n)),
                  (''getEventName'', Getter (JStr (toUpperCase en t @ toUpperCase en n)))]],
              [(toLowerCase en t @ ''Time'', JStr (clock en (clockReads w)))]]),
            w\<lparr>idsIssued := Suc (idsIssued w), clockReads := Suc (clockReads w)\<rparr>)
      else (Inl (Error ''eventType missing or invalid''), w\<lparr>idsIssued := Suc (idsIssued w)\<rparr>))"
proof -
  let ?i = "JStr (uuid en (idsIssued w))"
  let ?w1 = "w\<lparr>idsIssued := Suc (idsIssued w)\<rparr>"
  let ?b1 = "spread [b, [(''id'', ?i), (''getId'', Getter ?i)]]"
  let ?nm = "toUpperCase en t @ toUpperCase en n"
  let ?b2 = "spread [?b1, [(''eventName'', JStr ?nm), (''getEventName'', Getter (JStr ?nm))]]"
  have s1: "addId en b w = (Inr ?b1, ?w1)"
    by (simp add: addId_def g)
  have e1: "bag_get ?b1 ''eventType'' = JStr t" "bag_get ?b1 ''modelName'' = JStr n"
    unfolding b
    by (simp_all add: bag_get_spread bag_get_spread_idem t[unfolded b] n[unfolded b])
  show ?thesis
  proof (cases "toUpperCase en t \<in> {''CREATE'', ''UPDATE'', ''DELETE''}")
    case True
    have s2: "addEventName en ?b1 = Inr ?b2"
      by (simp add: addEventName_def e1 createEventName_def checkEventType_JStr[OF True]
          checkModelName_def)
    have e2: "bag_get ?b2 ''eventType'' = JStr t"
      unfolding b by (simp add: bag_get_spread bag_get_spread_idem t[unfolded b])
    from tk have "t \<noteq> []" by auto
    then have p: "propName en (JStr t) = Inr (toLowerCase en t @ ''Time'')"
      by (rule propName_JStr)
    have s3: "addTimestamp en ?b2 ?w1 =
       (Inr (spread [?b2, [(toLowerCase en t @ ''Time'', JStr (clock en (clockReads w)))]]),
        w\<lparr>idsIssued := Suc (idsIssued w), clockReads := Suc (clockReads w)\<rparr>)"
      by (simp add: addTimestamp_def e2 p timeStamp_def)
    from True show ?thesis
      by (simp add: enrichEvent_def s1 s2 s3)
  next
    case False
    have s2: "addEventName en ?b1 = Inl (Error ''eventType missing or invalid'')"
      by (simp add: addEventName_def e1 createEventName_def checkEventType_JStr_bad[OF False])
    from False show ?thesis
      by (simp add: enrichEvent_def s1 s2)
  qed
qed

lemma createEvent_registered:
  assumes n: "checkModelName en mn = Inr n"
    and t: "checkEventType en et = Inr t"
    and tt: "toUpperCase en t \<in> {''CREATE'', ''UPDATE'', ''DELETE''}"
    and m: "ef_get (eventFactories w) t = Some m"
    and has: "map_has m n"
    and inv: "invoke en (map_get m n) args w = (Inr event, w1)"
  shows "createEvent en this et mn args w =
     (Inr (JObj True (event_bag en t n event w1)),
      w1\<lparr>idsIssued := Suc (idsIssued w1), clockReads := Suc (clockReads w1)\<rparr>)"
proof -
  from checkEventType_Inr[OF t] have tk: "t = ''CREATE'' \<or> t = ''UPDATE'' \<or> t = ''DELETE''"
    by blast
  let ?b = "spread [own_props event,
              [(''generateId'', Uuid), (''modelName'', JStr n), (''eventType'', JStr t)]]"
  have "enrichEvent en ?b w1 =
     (Inr (event_bag en t n event w1),
      w1\<lparr>idsIssued := Suc (idsIssued w1), clockReads := Suc (clockReads w1)\<rparr>)"
    unfolding event_bag_def
    by (subst enrichEvent_options[OF _ _ _ tk refl, of _ n])
      (use tt in \<open>simp_all add: bag_get_spread\<close>)
  then show ?thesis
    by (simp add: createEvent_def n t m has inv freeze_def)
qed

lemma createEvent_Inr:
  assumes "createEvent en this et mn args w = (Inr ev, w')"
  shows "\<exists>n t m event w1. checkModelName en mn = Inr n \<and> checkEventType en et = Inr t \<and>
     toUpperCase en t \<in> {''CREATE'', ''UPDATE'', ''DELETE''} \<and>
     ef_get (eventFactories w) t = Some m \<and> map_has m n \<and>
     invoke en (map_get m n) args w = (Inr event, w1) \<and>
     ev = JObj True (event_bag en t n event w1) \<and>
     w' = w1\<lparr>idsIssued := Suc (idsIssued w1), clockReads := Suc (clockReads w1)\<rparr>"
proof -
  from assms obtain n where n: "checkModelName en mn = Inr n"
    by (cases "checkModelName en mn") (auto simp: createEvent_def)
  from assms n obtain t where t: "checkEventType en et = Inr t"
    by (cases "checkEventType en et") (auto simp: createEvent_def)
  from checkEventType_Inr[OF t] have tk: "t = ''CREATE'' \<or> t = ''UPDATE'' \<or> t = ''DELETE''"
    by blast
  from ef_get_checked[OF t] obtain m where m: "ef_get (eventFactories w) t = Some m" by blast
  from assms n t m have has: "map_has m n"
    by (auto simp: createEvent_def split: if_splits)
  from assms n t m has obtain event w1 where inv: "invoke en (map_get m n) args w = (Inr event, w1)"
    by (cases "invoke en (map_get m n) args w") (auto simp: createEvent_def split: sum.splits)
  let ?b = "spread [own_props event,
              [(''generateId'', Uuid), (''modelName'', JStr n), (''eventType'', JStr t)]]"
  have tt: "toUpperCase en t \<in> {''CREATE'', ''UPDATE'', ''DELETE''}"
  proof (rule ccontr)
    assume "\<not> ?thesis"
    then have "enrichEvent en ?b w1 =
       (Inl (Error ''eventType missing or invalid''), w1\<lparr>idsIssued := Suc (idsIssued w1)\<rparr>)"
      by (subst enrichEvent_options[OF _ _ _ tk refl, of _ n]) (simp_all add: bag_get_spread)
    with assms n t m has inv show False
      by (simp add: createEvent_def)
  qed
  from createEvent_registered[OF n t tt m has inv, of this] assms n t tt m has inv
  show ?thesis by auto
qed

lemma event_bag_lookup:
  shows "bag_get (event_bag en t n event w1) ''id'' = JStr (uuid en (idsIssued w1))"
    and "bag_get (event_bag en t n event w1) ''getId'' = Getter (JStr (uuid en (idsIssued w1)))"
    and "bag_get (event_bag en t n event w1) ''modelName'' = JStr n"
    and "bag_get (event_bag en t n event w1) ''eventType'' = JStr t"
    and "bag_get (event_bag en t n event w1) ''eventName'' =
           JStr (toUpperCase en t @ toUpperCase en n)"
    and "bag_get (event_bag en t n event w1) ''getEventName'' =
           Getter (JStr (toUpperCase en t @ toUpperCase en n))"
    and "bag_get (event_bag en t n event w1) ''generateId'' = Uuid"
    and "bag_get (event_bag en t n event w1) (toLowerCase en t @ ''Time'') =
           JStr (clock en (clockReads w1))"
  unfolding event_bag_def
  by (simp_all add: bag_get_spread bag_get_spread_idem time_key_neq time_key_neq[symmetric])

text \<open>
  On the Latin-1 host a name and its accented upper-case form are one registry key:
  after a constructor has been registered under an upper-case accented name,
  \<open>createModel\<close> with the lower-case name finds it and returns a model.
\<close>

lemma accented_names_resolve:
  "toUpperCase latin_env [CHR 0xE9] = [CHR 0xC9] \<and>
   toUpperCase latin_env [CHR 0xDF] = ''SS'' \<and>
   createModel latin_env (Instance 0) (JStr [CHR 0xE9]) JNull
     (snd (registerModel latin_env (Instance 0) (JStr [CHR 0xC9]) (Ext 0) empty_world)) =
   (Inr (JObj True
      [(''total'', JNum 100), (''generateId'', Uuid), (''modelName'', JStr [CHR 0xC9]),
       (''id'', JStr ''u''), (''getId'', Getter (JStr ''u'')),
       (''getModelName'', Getter (JStr [CHR 0xC9])), (''createTime'', JStr ''now'')]),
    empty_world\<lparr>modelFactories := [([CHR 0xC9], Ext 0)], idsIssued := 1, clockReads := 1,
                 trace := [Invoke (Ext 0) JNull]\<rparr>)"
  by code_simp

section \<open>The event naming protocol\<close>

text \<open>
  Claim C1. For every event type in CREATE, UPDATE, DELETE (in any casing) and every model-type
  name, whenever \<open>createEvent\<close> returns an event, the event has a \<open>getEventName\<close> accessor,
  and calling it returns the uppercase event type followed directly by the uppercase
  model-type name. The name is a function of the two names alone: the constructor's
  arguments and output, the identifier, the clock and the state of the world do not enter
  it. The code upper-cases the two canonical names once more when it builds the name
  (\<open>createEventName\<close> validates them again), so the statement is for a host whose
  \<open>toUpperCase\<close> leaves the upper-cased names as they are; nothing else is assumed of
  the host's case conversions.
\<close>

theorem createEvent_getEventName:
  assumes "createEvent en this (JStr et) (JStr mn) args w = (Inr event, w')"
    and "toUpperCase en (toUpperCase en et) = toUpperCase en et"
    and "toUpperCase en (toUpperCase en mn) = toUpperCase en mn"
  shows "\<exists>g. getProp event ''getEventName'' = Inr g \<and>
           (\<forall>a w''. call en g a w'' =
              (Inr (JStr (toUpperCase en et @ toUpperCase en mn)), w''))"
proof -
  from createEvent_Inr[OF assms(1)] obtain n t m ev0 w1 where
    n: "checkModelName en (JStr mn) = Inr n" and t: "checkEventType en (JStr et) = Inr t" and
    ev: "event = JObj True (event_bag en t n ev0 w1)"
    by blast
  from checkModelName_Inr[OF n] have n': "n = toUpperCase en mn" by simp
  from checkEventType_Inr[OF t] have t': "t = toUpperCase en et" by simp
  have "getProp event ''getEventName'' =
          Inr (Getter (JStr (toUpperCase en et @ toUpperCase en mn)))"
    by (simp add: ev getProp_def event_bag_lookup(6) n' t' assms(2,3))
  then show ?thesis by simp
qed

theorem createEvent_getEventName_witness:
  "createEvent demo_env (Instance 0) (JStr ''UPDATE'') (JStr ''Order'') JNull
     (snd (registerEvent demo_env (Instance 0) (JStr ''update'') (JStr ''order'') (Ext 1)
        empty_world)) =
   (Inr (JObj True
      [(''generateId'', Uuid), (''modelName'', JStr ''ORDER''), (''eventType'', JStr ''UPDATE''),
       (''id'', JStr ''u''), (''getId'', Getter (JStr ''u'')),
       (''eventName'', JStr ''UPDATEORDER''), (''getEventName'', Getter (JStr ''UPDATEORDER'')),
       (''updateTime'', JStr ''now'')]),
    \<lparr>modelFactories = [],
     eventFactories = \<lparr>CREATE = [], UPDATE = [(''ORDER'', Ext 1)], DELETE = []\<rparr>,
     instances = 1, idsIssued = 1, clockReads = 1, trace = [Invoke (Ext 1) JNull]\<rparr>) \<and>
   toUpperCase demo_env (toUpperCase demo_env ''UPDATE'') = toUpperCase demo_env ''UPDATE'' \<and>
   toUpperCase demo_env (toUpperCase demo_env ''Order'') = toUpperCase demo_env ''Order'' \<and>
   toUpperCase demo_env ''UPDATE'' @ toUpperCase demo_env ''Order'' = ''UPDATEORDER'' \<and>
   (\<exists>g. getProp (JObj True
      [(''generateId'', Uuid), (''modelName'', JStr ''ORDER''), (''eventType'', JStr ''UPDATE''),
       (''id'', JStr ''u''), (''getId'', Getter (JStr ''u'')),
       (''eventName'', JStr ''UPDATEORDER''), (''getEventName'', Getter (JStr ''UPDATEORDER'')),
       (''updateTime'', JStr ''now'')]) ''getEventName'' = Inr g \<and>
      (\<forall>a w''. call demo_env g a w'' = (Inr (JStr ''UPDATEORDER''), w''))) \<and>
   createEvent latin_env (Instance 0) (JStr ''create'') (JStr [CHR 0xE9, CHR 0xDF]) JNull
     (snd (registerEvent latin_env (Instance 0) (JStr ''create'')
        (JStr [CHR 0xC9, CHR ''s'', CHR ''S'']) (Ext 1) empty_world)) =
   (Inr (JObj True
      [(''generateId'', Uuid), (''modelName'', JStr [CHR 0xC9, CHR ''S'', CHR ''S'']),
       (''eventType'', JStr ''CREATE''), (''id'', JStr ''u''), (''getId'', Getter (JStr ''u'')),
       (''eventName'', JStr (''CREATE'' @ [CHR 0xC9, CHR ''S'', CHR ''S''])),
       (''getEventName'', Getter (JStr (''CREATE'' @ [CHR 0xC9, CHR ''S'', CHR ''S'']))),
       (''createTime'', JStr ''now'')]),
    empty_world\<lparr>eventFactories :=
                   \<lparr>CREATE = [([CHR 0xC9, CHR ''S'', CHR ''S''], Ext 1)], UPDATE = [],
                    DELETE = []\<rparr>,
                 idsIssued := 1, clockReads := 1, trace := [Invoke (Ext 1) JNull]\<rparr>) \<and>
   toUpperCase latin_env (toUpperCase latin_env ''create'') = toUpperCase latin_env ''create'' \<and>
   toUpperCase latin_env (toUpperCase latin_env [CHR 0xE9, CHR 0xDF]) =
     toUpperCase latin_env [CHR 0xE9, CHR 0xDF] \<and>
   toUpperCase latin_env ''create'' @ toUpperCase latin_env [CHR 0xE9, CHR 0xDF] =
     ''CREATE'' @ [CHR 0xC9, CHR ''S'', CHR ''S''] \<and>
   (\<exists>g. getProp (JObj True
      [(''generateId'', Uuid), (''modelName'', JStr [CHR 0xC9, CHR ''S'', CHR ''S'']),
       (''eventType'', JStr ''CREATE''), (''id'', JStr ''u''), (''getId'', Getter (JStr ''u'')),
       (''eventName'', JStr (''CREATE'' @ [CHR 0xC9, CHR ''S'', CHR ''S''])),
       (''getEventName'', Getter (JStr (''CREATE'' @ [CHR 0xC9, CHR ''S'', CHR ''S'']))),
       (''createTime'', JStr ''now'')]) ''getEventName'' = Inr g \<and>
      (\<forall>a w''. call latin_env g a w'' =
         (Inr (JStr (''CREATE'' @ [CHR 0xC9, CHR ''S'', CHR ''S''])), w'')))"
proof -
  have h2: "createEvent latin_env (Instance 0) (JStr ''create'') (JStr [CHR 0xE9, CHR 0xDF]) JNull
     (snd (registerEvent latin_env (Instance 0) (JStr ''create'')
        (JStr [CHR 0xC9, CHR ''s'', CHR ''S'']) (Ext 1) empty_world)) =
   (Inr (JObj True
      [(''generateId'', Uuid), (''modelName'', JStr [CHR 0xC9, CHR ''S'', CHR ''S'']),
       (''eventType'', JStr ''CREATE''), (''id'', JStr ''u''), (''getId'', Getter (JStr ''u'')),
       (''eventName'', JStr (''CREATE'' @ [CHR 0xC9, CHR ''S'', CHR ''S''])),
       (''getEventName'', Getter (JStr (''CREATE'' @ [CHR 0xC9, CHR ''S'', CHR ''S'']))),
       (''createTime'', JStr ''now'')]),
    empty_world\<lparr>eventFactories :=
                   \<lparr>CREATE = [([CHR 0xC9, CHR ''S'', CHR ''S''], Ext 1)], UPDATE = [],
                    DELETE = []\<rparr>,
                 idsIssued := 1, clockReads := 1, trace := [Invoke (Ext 1) JNull]\<rparr>)"
    by code_simp
  have i2: "toUpperCase latin_env (toUpperCase latin_env ''create'') = toUpperCase latin_env ''create''"
    "toUpperCase latin_env (toUpperCase latin_env [CHR 0xE9, CHR 0xDF]) =
     toUpperCase latin_env [CHR 0xE9, CHR 0xDF]"
    by code_simp+
  have u2: "toUpperCase latin_env ''create'' @ toUpperCase latin_env [CHR 0xE9, CHR 0xDF] =
     ''CREATE'' @ [CHR 0xC9, CHR ''S'', CHR ''S'']"
    by code_simp
  have r2: "\<exists>g. getProp (JObj True
      [(''generateId'', Uuid), (''modelName'', JStr [CHR 0xC9, CHR ''S'', CHR ''S'']),
       (''eventType'', JStr ''CREATE''), (''id'', JStr ''u''), (''getId'', Getter (JStr ''u'')),
       (''eventName'', JStr (''CREATE'' @ [CHR 0xC9, CHR ''S'', CHR ''S''])),
       (''getEventName'', Getter (JStr (''CREATE'' @ [CHR 0xC9, CHR ''S'', CHR ''S'']))),
       (''createTime'', JStr ''now'')]) ''getEventName'' = Inr g \<and>
      (\<forall>a w''. call latin_env g a w'' =
         (Inr (JStr (''CREATE'' @ [CHR 0xC9, CHR ''S'', CHR ''S''])), w''))"
    using createEvent_getEventName[OF h2 i2] unfolding u2 .
  have h: "createEvent demo_env (Instance 0) (JStr ''UPDATE'') (JStr ''Order'') JNull
     (snd (registerEvent demo_env (Instance 0) (JStr ''update'') (JStr ''order'') (Ext 1)
        empty_world)) =
   (Inr (JObj True
      [(''generateId'', Uuid), (''modelName'', JStr ''ORDER''), (''eventType'', JStr ''UPDATE''),
       (''id'', JStr ''u''), (''getId'', Getter (JStr ''u'')),
       (''eventName'', JStr ''UPDATEORDER''), (''getEventName'', Getter (JStr ''UPDATEORDER'')),
       (''updateTime'', JStr ''now'')]),
    \<lparr>modelFactories = [],
     eventFactories = \<lparr>CREATE = [], UPDATE = [(''ORDER'', Ext 1)], DELETE = []\<rparr>,
     instances = 1, idsIssued = 1, clockReads = 1, trace = [Invoke (Ext 1) JNull]\<rparr>)"
    by code_simp
  have i: "toUpperCase demo_env (toUpperCase demo_env ''UPDATE'') = toUpperCase demo_env ''UPDATE''"
    "toUpperCase demo_env (toUpperCase demo_env ''Order'') = toUpperCase demo_env ''Order''"
    by (rule demo_env_upper_idem)+
  have u: "toUpperCase demo_env ''UPDATE'' @ toUpperCase demo_env ''Order'' = ''UPDATEORDER''"
    by code_simp
  have r: "\<exists>g. getProp (JObj True
      [(''generateId'', Uuid), (''modelName'', JStr ''ORDER''), (''eventType'', JStr ''UPDATE''),
       (''id'', JStr ''u''), (''getId'', Getter (JStr ''u'')),
       (''eventName'', JStr ''UPDATEORDER''), (''getEventName'', Getter (JStr ''UPDATEORDER'')),
       (''updateTime'', JStr ''now'')]) ''getEventName'' = Inr g \<and>
      (\<forall>a w''. call demo_env g a w'' = (Inr (JStr ''UPDATEORDER''), w''))"
    using createEvent_getEventName[OF h i] unfolding u .
  from h i u r h2 i2 u2 r2 show ?thesis by (intro conjI)
qed

section \<open>Pipeline attributes take precedence in events\<close>

text \<open>
  Claim C10. Whenever \<open>createEvent\<close> returns an event, the event is a frozen object whose
  \<open>id\<close> is the identifier that the pipeline itself drew from the generator (the last one
  issued), whose \<open>getId\<close> returns that identifier, whose \<open>modelName\<close> and \<open>eventType\<close>
  are the canonical uppercase forms of the two names, and whose \<open>eventName\<close> and
  \<open>getEventName\<close> carry the name that \<open>createEventName\<close> builds from those two canonical
  forms (upper-casing them again), whatever the registered constructor put under those
  keys. The event also carries the injected \<open>generateId\<close> function and the \<open>eventType\<close>
  string as ordinary attributes. Nothing is assumed of the host's case conversions.
\<close>

theorem createEvent_pipeline_precedence:
  assumes "createEvent en this (JStr et) (JStr mn) args w = (Inr event, w')"
  shows "\<exists>b k. event = JObj True b \<and> idsIssued w' = Suc k \<and>
           bag_get b ''id'' = JStr (uuid en k) \<and>
           bag_get b ''getId'' = Getter (JStr (uuid en k)) \<and>
           bag_get b ''modelName'' = JStr (toUpperCase en mn) \<and>
           bag_get b ''eventType'' = JStr (toUpperCase en et) \<and>
           bag_get b ''eventName'' =
             JStr (toUpperCase en (toUpperCase en et) @ toUpperCase en (toUpperCase en mn)) \<and>
           bag_get b ''getEventName'' =
             Getter (JStr (toUpperCase en (toUpperCase en et) @
                           toUpperCase en (toUpperCase en mn))) \<and>
           bag_get b ''generateId'' = Uuid"
proof -
  from createEvent_Inr[OF assms] obtain n t m ev0 w1 where
    n: "checkModelName en (JStr mn) = Inr n" and t: "checkEventType en (JStr et) = Inr t" and
    ev: "event = JObj True (event_bag en t n ev0 w1)" and
    w': "w' = w1\<lparr>idsIssued := Suc (idsIssued w1), clockReads := Suc (clockReads w1)\<rparr>"
    by blast
  from checkModelName_Inr[OF n] have n': "n = toUpperCase en mn" by simp
  from checkEventType_Inr[OF t] have t': "t = toUpperCase en et" by simp
  note look = event_bag_lookup[of en t n ev0 w1, unfolded n' t']
  have "idsIssued w' = Suc (idsIssued w1)" by (simp add: w')
  with ev look(1-7) show ?thesis unfolding n' t' by blast
qed

theorem createEvent_pipeline_precedence_witness:
  "createEvent demo_env (Instance 0) (JStr ''create'') (JStr ''order'') JNull
     (snd (registerEvent demo_env (Instance 0) (JStr ''CREATE'') (JStr ''Order'') (Ext 2)
        empty_world)) =
   (Inr (JObj True
      [(''id'', JStr ''u''), (''eventType'', JStr ''CREATE''),
       (''eventName'', JStr ''CREATEORDER''), (''generateId'', Uuid),
       (''modelName'', JStr ''ORDER''), (''getId'', Getter (JStr ''u'')),
       (''getEventName'', Getter (JStr ''CREATEORDER'')), (''createTime'', JStr ''now'')]),
    \<lparr>modelFactories = [],
     eventFactories = \<lparr>CREATE = [(''ORDER'', Ext 2)], UPDATE = [], DELETE = []\<rparr>,
     instances = 1, idsIssued = 1, clockReads = 1, trace = [Invoke (Ext 2) JNull]\<rparr>) \<and>
   (\<exists>b k. JObj True
      [(''id'', JStr ''u''), (''eventType'', JStr ''CREATE''),
       (''eventName'', JStr ''CREATEORDER''), (''generateId'', Uuid),
       (''modelName'', JStr ''ORDER''), (''getId'', Getter (JStr ''u'')),
       (''getEventName'', Getter (JStr ''CREATEORDER'')), (''createTime'', JStr ''now'')] =
      JObj True b \<and> (1::nat) = Suc k \<and>
      bag_get b ''id'' = JStr (uuid demo_env k) \<and>
      bag_get b ''getId'' = Getter (JStr (uuid demo_env k)) \<and>
      bag_get b ''modelName'' = JStr ''ORDER'' \<and>
      bag_get b ''eventType'' = JStr ''CREATE'' \<and>
      bag_get b ''eventName'' = JStr ''CREATEORDER'' \<and>
      bag_get b ''getEventName'' = Getter (JStr ''CREATEORDER'') \<and>
      bag_get b ''generateId'' = Uuid)"
proof -
  have h: "createEvent demo_env (Instance 0) (JStr ''create'') (JStr ''order'') JNull
     (snd (registerEvent demo_env (Instance 0) (JStr ''CREATE'') (JStr ''Order'') (Ext 2)
        empty_world)) =
   (Inr (JObj True
      [(''id'', JStr ''u''), (''eventType'', JStr ''CREATE''),
       (''eventName'', JStr ''CREATEORDER''), (''generateId'', Uuid),
       (''modelName'', JStr ''ORDER''), (''getId'', Getter (JStr ''u'')),
       (''getEventName'', Getter (JStr ''CREATEORDER'')), (''createTime'', JStr ''now'')]),
    \<lparr>modelFactories = [],
     eventFactories = \<lparr>CREATE = [(''ORDER'', Ext 2)], UPDATE = [], DELETE = []\<rparr>,
     instances = 1, idsIssued = 1, clockReads = 1, trace = [Invoke (Ext 2) JNull]\<rparr>)"
    by code_simp
  have u: "toUpperCase demo_env ''create'' = ''CREATE''" "toUpperCase demo_env ''order'' = ''ORDER''"
    "toUpperCase demo_env ''CREATE'' = ''CREATE''" "toUpperCase demo_env ''ORDER'' = ''ORDER''"
    by code_simp+
  have i: "idsIssued \<lparr>modelFactories = [],
     eventFactories = \<lparr>CREATE = [(''ORDER'', Ext 2)], UPDATE = [], DELETE = []\<rparr>,
     instances = 1, idsIssued = 1, clockReads = 1, trace = [Invoke (Ext 2) JNull]\<rparr> = 1"
    by simp
  have a: "''CREATE'' @ ''ORDER'' = ''CREATEORDER''" by simp
  show ?thesis
    using createEvent_pipeline_precedence[OF h] h unfolding u i a by blast
qed

section \<open>Unregistered names\<close>

text \<open>
  Claim C6. If no model constructor is registered under the canonical form of a name (the
  host's upper-casing of it), \<open>createModel\<close> rejects with the error
  \<^verbatim>\<open>unregistered model\<close>; if no event constructor is registered for the canonical (event
  type, model-type name) pair, \<open>createEvent\<close> rejects with the error
  \<^verbatim>\<open>unregistered model event\<close>. In both cases the world afterwards is the world before: the
  registry maps are the same, and the log of effects has not grown, so no constructor was
  invoked. This holds for every host \<open>toUpperCase\<close>.
\<close>

theorem unregistered_rejects_without_effects:
  "(\<not> map_has (modelFactories w) (toUpperCase en mn) \<longrightarrow>
      createModel en this (JStr mn) args w = (Inl (Error ''unregistered model''), w)) \<and>
   (\<forall>m. toUpperCase en et \<in> {''CREATE'', ''UPDATE'', ''DELETE''} \<and>
        ef_get (eventFactories w) (toUpperCase en et) = Some m \<and>
        \<not> map_has m (toUpperCase en mn) \<longrightarrow>
      createEvent en this (JStr et) (JStr mn) args w =
        (Inl (Error ''unregistered model event''), w))"
  by (auto simp: createModel_def createEvent_def checkModelName_def checkEventType_def
      EventTypes_def)

theorem unregistered_rejects_without_effects_witness:
  "createModel demo_env (Instance 0) (JStr ''Order'') JNull
     (snd (registerEvent demo_env (Instance 0) (JStr ''update'') (JStr ''order'') (Ext 1)
        empty_world)) =
   (Inl (Error ''unregistered model''),
    snd (registerEvent demo_env (Instance 0) (JStr ''update'') (JStr ''order'') (Ext 1)
       empty_world)) \<and>
   toUpperCase demo_env ''delete'' \<in> {''CREATE'', ''UPDATE'', ''DELETE''} \<and>
   ef_get (eventFactories
        (snd (registerEvent demo_env (Instance 0) (JStr ''update'') (JStr ''order'') (Ext 1)
           empty_world)))
      (toUpperCase demo_env ''delete'') = Some [] \<and>
   \<not> map_has [] (toUpperCase demo_env ''Order'') \<and>
   \<not> map_has (modelFactories
        (snd (registerEvent demo_env (Instance 0) (JStr ''update'') (JStr ''order'') (Ext 1)
           empty_world)))
      (toUpperCase demo_env ''Order'') \<and>
   createEvent demo_env (Instance 0) (JStr ''delete'') (JStr ''Order'') JNull
     (snd (registerEvent demo_env (Instance 0) (JStr ''update'') (JStr ''order'') (Ext 1)
        empty_world)) =
   (Inl (Error ''unregistered model event''),
    snd (registerEvent demo_env (Instance 0) (JStr ''update'') (JStr ''order'') (Ext 1)
       empty_world))"
proof -
  let ?w = "snd (registerEvent demo_env (Instance 0) (JStr ''update'') (JStr ''order'') (Ext 1)
              empty_world)"
  have a: "toUpperCase demo_env ''delete'' \<in> {''CREATE'', ''UPDATE'', ''DELETE''}"
    by code_simp
  have b: "ef_get (eventFactories ?w) (toUpperCase demo_env ''delete'') = Some []"
    by code_simp
  have c: "\<not> map_has [] (toUpperCase demo_env ''Order'')"
    by (simp add: map_has_def)
  have d: "\<not> map_has (modelFactories ?w) (toUpperCase demo_env ''Order'')"
    by code_simp
  from unregistered_rejects_without_effects
         [of ?w demo_env "''Order''" "Instance 0" JNull "''delete''"] a b c d
  show ?thesis by blast
qed

section \<open>Validation of the model-type name\<close>

text \<open>
  Claim C7 says that every operation taking a model-type name fails with the invalid-argument
  error whenever the name is not a non-empty string, the empty string included. The code
  tests \<^verbatim>\<open>typeof modelName === 'string'\<close> and nothing else: the empty string passes, is
  its own canonical form, and can be registered and looked up like any other name.
\<close>

theorem empty_name_accepted:
  "checkModelName demo_env (JStr '''') = Inr '''' \<and>
   registerModel demo_env (Instance 0) (JStr '''') (Ext 0) empty_world =
     (Inr (), empty_world\<lparr>modelFactories := [('''', Ext 0)]\<rparr>) \<and>
   registerEvent demo_env (Instance 0) (JStr ''create'') (JStr '''') (Ext 1) empty_world =
     (Inr (), empty_world\<lparr>eventFactories :=
                \<lparr>CREATE = [('''', Ext 1)], UPDATE = [], DELETE = []\<rparr>\<rparr>) \<and>
   createModel demo_env (Instance 0) (JStr '''') JNull empty_world =
     (Inl (Error ''unregistered model''), empty_world) \<and>
   createEvent demo_env (Instance 0) (JStr ''create'') (JStr '''') JNull
     (empty_world\<lparr>eventFactories := \<lparr>CREATE = [('''', Ext 1)], UPDATE = [], DELETE = []\<rparr>\<rparr>) =
     (Inr (JObj True
        [(''generateId'', Uuid), (''modelName'', JStr ''''), (''eventType'', JStr ''CREATE''),
         (''id'', JStr ''u''), (''getId'', Getter (JStr ''u'')),
         (''eventName'', JStr ''CREATE''), (''getEventName'', Getter (JStr ''CREATE'')),
         (''createTime'', JStr ''now'')]),
      empty_world\<lparr>eventFactories := \<lparr>CREATE = [('''', Ext 1)], UPDATE = [], DELETE = []\<rparr>,
                   idsIssued := 1, clockReads := 1, trace := [Invoke (Ext 1) JNull]\<rparr>)"
  by code_simp

text \<open>
  Claim C7 as amended. Every operation that takes a model-type name (\<open>registerModel\<close>,
  \<open>registerEvent\<close>, \<open>createModel\<close>, \<open>createEvent\<close>) fails with the error
  \<^verbatim>\<open>modelName missing or invalid\<close> whenever the name is not a string. The check comes before
  the event type is validated and before any registry access: the outcome is the same in
  every world and for every event type, and the world is left as it was. Every string, the
  empty one included, passes the check and is canonicalized to uppercase.
\<close>

theorem non_string_name_rejected:
  "((\<forall>s. modelName \<noteq> JStr s) \<longrightarrow>
      registerModel en this modelName f w =
        (Inl (Error ''modelName missing or invalid''), w) \<and>
      registerEvent en this eventType modelName f w =
        (Inl (Error ''modelName missing or invalid''), w) \<and>
      createModel en this modelName args w =
        (Inl (Error ''modelName missing or invalid''), w) \<and>
      createEvent en this eventType modelName args w =
        (Inl (Error ''modelName missing or invalid''), w)) \<and>
   checkModelName en (JStr s) = Inr (toUpperCase en s)"
  by (cases modelName)
     (simp_all add: registerModel_def registerEvent_def createModel_def createEvent_def
        checkModelName_def)

theorem non_string_name_rejected_witness:
  "(\<forall>s. JNum 5 \<noteq> JStr s) \<and>
   registerModel demo_env (Instance 0) (JNum 5) (Ext 0) empty_world =
     (Inl (Error ''modelName missing or invalid''), empty_world) \<and>
   registerEvent demo_env (Instance 0) (JStr ''no such type'') (JNum 5) (Ext 0) empty_world =
     (Inl (Error ''modelName missing or invalid''), empty_world) \<and>
   createModel demo_env (Instance 0) (JNum 5) JNull empty_world =
     (Inl (Error ''modelName missing or invalid''), empty_world) \<and>
   createEvent demo_env (Instance 0) (JStr ''no such type'') (JNum 5) JNull empty_world =
     (Inl (Error ''modelName missing or invalid''), empty_world)"
  using non_string_name_rejected
          [of "JNum 5" demo_env "Instance 0" "Ext 0" empty_world "JStr ''no such type''" JNull]
  by simp

section \<open>One registry behind every instance\<close>

text \<open>
  Claim C9. The methods never read \<open>this\<close>: called through any two instances they do the
  same thing, because the maps are module-level variables. Constructing a new
  \<open>ModelFactoryInstance\<close> assigns fresh maps to those variables, so afterwards, through
  every instance and whatever had been registered before, \<open>listModels\<close> is empty,
  \<open>createModel\<close> rejects every name as unregistered and \<open>createEvent\<close> rejects every pair
  with a valid event type as unregistered.
\<close>

theorem new_instance_empties_shared_registry:
  "ModelFactoryInstance w = (i, w') \<longrightarrow>
     listModels this w' = [] \<and>
     createModel en this (JStr mn) args w' = (Inl (Error ''unregistered model''), w') \<and>
     (toUpperCase en et \<in> {''CREATE'', ''UPDATE'', ''DELETE''} \<longrightarrow>
        createEvent en this (JStr et) (JStr mn) args w' =
          (Inl (Error ''unregistered model event''), w')) \<and>
     listModels this w' = listModels i w' \<and>
     createModel en this (JStr mn) args w' = createModel en i (JStr mn) args w' \<and>
     createEvent en this (JStr et) (JStr mn) args w' = createEvent en i (JStr et) (JStr mn) args w' \<and>
     registerModel en this (JStr mn) f w' = registerModel en i (JStr mn) f w' \<and>
     registerEvent en this (JStr et) (JStr mn) f w' = registerEvent en i (JStr et) (JStr mn) f w'"
  by (auto simp: ModelFactoryInstance_def listModels_def map_values_def createModel_def
      createEvent_def registerModel_def registerEvent_def checkModelName_def checkEventType_def
      EventTypes_def map_has_def ef_get_def)

theorem new_instance_empties_shared_registry_witness:
  "ModelFactoryInstance
     (snd (registerEvent demo_env (Instance 0) (JStr ''create'') (JStr ''order'') (Ext 1)
        (snd (registerModel demo_env (Instance 0) (JStr ''Order'') (Ext 0) empty_world)))) =
   (Instance 1, empty_world\<lparr>instances := 2\<rparr>) \<and>
   listModels (Instance 0)
     (snd (registerEvent demo_env (Instance 0) (JStr ''create'') (JStr ''order'') (Ext 1)
        (snd (registerModel demo_env (Instance 0) (JStr ''Order'') (Ext 0) empty_world)))) =
     [Ext 0] \<and>
   toUpperCase demo_env ''create'' \<in> {''CREATE'', ''UPDATE'', ''DELETE''} \<and>
   listModels (Instance 0) (empty_world\<lparr>instances := 2\<rparr>) = [] \<and>
   createModel demo_env (Instance 0) (JStr ''Order'') JNull (empty_world\<lparr>instances := 2\<rparr>) =
     (Inl (Error ''unregistered model''), empty_world\<lparr>instances := 2\<rparr>) \<and>
   createEvent demo_env (Instance 0) (JStr ''create'') (JStr ''Order'') JNull
     (empty_world\<lparr>instances := 2\<rparr>) =
     (Inl (Error ''unregistered model event''), empty_world\<lparr>instances := 2\<rparr>)"
proof -
  have h: "ModelFactoryInstance
     (snd (registerEvent demo_env (Instance 0) (JStr ''create'') (JStr ''order'') (Ext 1)
        (snd (registerModel demo_env (Instance 0) (JStr ''Order'') (Ext 0) empty_world)))) =
   (Instance 1, empty_world\<lparr>instances := 2\<rparr>)"
    by code_simp
  have l: "listModels (Instance 0)
     (snd (registerEvent demo_env (Instance 0) (JStr ''create'') (JStr ''order'') (Ext 1)
        (snd (registerModel demo_env (Instance 0) (JStr ''Order'') (Ext 0) empty_world)))) =
     [Ext 0]"
    by code_simp
  have a: "toUpperCase demo_env ''create'' \<in> {''CREATE'', ''UPDATE'', ''DELETE''}"
    by code_simp
  from new_instance_empties_shared_registry
         [of _ "Instance 1" "empty_world\<lparr>instances := 2\<rparr>" "Instance 0" demo_env "''Order''"
             JNull "''create''"] h l a
  show ?thesis by blast
qed

section \<open>The registry maps and the log of effects\<close>

lemma map_has_set: "map_has (map_set m k v) k' = (k' = k \<or> map_has m k')"
  by (simp add: map_has_def map_set_def update_conv')

lemma map_get_set: "map_get (map_set m k v) k' = (if k' = k then v else map_get m k')"
  by (simp add: map_get_def map_set_def update_conv')

lemma ef_get_put:
  "t = ''CREATE'' \<or> t = ''UPDATE'' \<or> t = ''DELETE'' \<Longrightarrow> ef_get (ef_put ef t m) t = Some m"
  by (auto simp: ef_get_def ef_put_def)

lemma registerModel_fresh:
  "\<not> map_has (modelFactories w) (toUpperCase en n) \<Longrightarrow> is_function f \<Longrightarrow>
   registerModel en this (JStr n) f w =
     (Inr (), w\<lparr>modelFactories := map_set (modelFactories w) (toUpperCase en n) f\<rparr>)"
  by (simp add: registerModel_def checkModelName_def)

lemma registerModel_present:
  "map_has (modelFactories w) (toUpperCase en n) \<Longrightarrow>
   registerModel en this (JStr n) g w = (Inr (), w)"
  by (simp add: registerModel_def checkModelName_def)

lemma registerEvent_callable:
  assumes "toUpperCase en et \<in> {''CREATE'', ''UPDATE'', ''DELETE''}" and "is_function g"
  shows "\<exists>m. ef_get (eventFactories w) (toUpperCase en et) = Some m \<and>
     registerEvent en this (JStr et) (JStr n) g w =
       (Inr (), w\<lparr>eventFactories :=
                    ef_put (eventFactories w) (toUpperCase en et)
                      (map_set m (toUpperCase en n) g)\<rparr>)"
  using assms
  by (auto simp: registerEvent_def checkModelName_def checkEventType_def EventTypes_def
      ef_get_def)

lemma call_trace: "trace (snd (call en f a w)) = trace w"
  by (cases f) simp_all

lemma invoke_trace:
  "is_function f \<Longrightarrow> trace (snd (invoke en f a w)) = trace w @ [Invoke f a]"
  by (simp add: invoke_def call_trace)

lemma addId_trace: "trace (snd (addId en b w)) = trace w"
  using call_trace[of en "bag_get b ''generateId''" JUndefined w]
  by (auto simp: addId_def split: prod.splits sum.splits)

lemma addTimestamp_trace: "trace (snd (addTimestamp en b w)) = trace w"
  by (auto simp: addTimestamp_def timeStamp_def split: sum.splits)

lemma compose_trace:
  "(\<And>f b w. f \<in> set fs \<Longrightarrow> trace (snd (f b w)) = trace w) \<Longrightarrow>
   trace (snd (compose fs b w)) = trace w"
proof (induction fs arbitrary: b w)
  case Nil
  then show ?case by simp
next
  case (Cons f fs)
  have f: "trace (snd (f b w)) = trace w" by (rule Cons.prems) simp
  show ?case
  proof (cases "f b w")
    case (Pair r w1)
    with f have w1: "trace w1 = trace w" by simp
    show ?thesis
    proof (cases r)
      case (Inl e)
      with Pair w1 show ?thesis by simp
    next
      case (Inr b')
      have "trace (snd (compose fs b' w1)) = trace w1"
        by (rule Cons.IH) (simp add: Cons.prems)
      with Pair Inr w1 show ?thesis by simp
    qed
  qed
qed

lemma enrichModel_trace: "trace (snd (enrichModel en b w)) = trace w"
  unfolding enrichModel_def
  by (rule compose_trace) (auto simp: addId_trace addTimestamp_trace)

lemma enrichEvent_trace: "trace (snd (enrichEvent en b w)) = trace w"
  unfolding enrichEvent_def
  by (rule compose_trace) (auto simp: addId_trace addTimestamp_trace)

lemma Model_create_trace:
  assumes "is_function f"
  shows "trace (snd (Model_create en f args n w)) = trace w @ [Invoke f args]"
proof (cases "invoke en f args w")
  case (Pair r w1)
  with invoke_trace[OF assms, of en args w] have w1: "trace w1 = trace w @ [Invoke f args]"
    by simp
  show ?thesis
  proof (cases r)
    case (Inl e)
    with Pair w1 show ?thesis by (simp add: Model_create_def)
  next
    case (Inr model)
    let ?b = "spread [own_props model, [(''generateId'', Uuid), (''modelName'', JStr n)]]"
    from enrichModel_trace[of en ?b w1] Pair Inr w1 show ?thesis
      by (auto simp: Model_create_def split: prod.splits sum.splits)
  qed
qed

lemma createModel_trace:
  assumes "map_has (modelFactories w) (toUpperCase en n)"
    and "is_function (map_get (modelFactories w) (toUpperCase en n))"
  shows "trace (snd (createModel en this (JStr n) args w)) =
         trace w @ [Invoke (map_get (modelFactories w) (toUpperCase en n)) args]"
  using Model_create_trace[OF assms(2), of en args "toUpperCase en n" w] assms(1)
  by (auto simp: createModel_def checkModelName_def split: prod.splits sum.splits)

lemma createEvent_trace:
  assumes "toUpperCase en et \<in> {''CREATE'', ''UPDATE'', ''DELETE''}"
    and "ef_get (eventFactories w) (toUpperCase en et) = Some m"
    and "map_has m (toUpperCase en n)"
    and "is_function (map_get m (toUpperCase en n))"
  shows "trace (snd (createEvent en this (JStr et) (JStr n) args w)) =
         trace w @ [Invoke (map_get m (toUpperCase en n)) args]"
proof (cases "invoke en (map_get m (toUpperCase en n)) args w")
  case (Pair r w1)
  with invoke_trace[OF assms(4), of en args w]
  have w1: "trace w1 = trace w @ [Invoke (map_get m (toUpperCase en n)) args]"
    by simp
  have c: "checkEventType en (JStr et) = Inr (toUpperCase en et)"
    using assms(1) by (rule checkEventType_JStr)
  show ?thesis
  proof (cases r)
    case (Inl e)
    with Pair w1 c assms show ?thesis by (simp add: createEvent_def checkModelName_def)
  next
    case (Inr event)
    let ?b = "spread [own_props event, [(''generateId'', Uuid),
                (''modelName'', JStr (toUpperCase en n)),
                (''eventType'', JStr (toUpperCase en et))]]"
    from enrichEvent_trace[of en ?b w1] Pair Inr w1 c assms(2,3) show ?thesis
      by (auto simp: createEvent_def checkModelName_def split: prod.splits sum.splits)
  qed
qed

text \<open>
  With a callable entry under the canonical name, the outcome of a creation is the outcome
  of calling that entry on the arguments, passed through the pipeline.
\<close>

lemma createModel_registered_eq:
  assumes "map_has (modelFactories w) (toUpperCase en n)"
    and "map_get (modelFactories w) (toUpperCase en n) = f"
    and "is_function f"
  shows "createModel en this (JStr n) args w =
     (case call en f args (w\<lparr>trace := trace w @ [Invoke f args]\<rparr>) of
        (Inl e, w2) \<Rightarrow> (Inl e, w2)
      | (Inr model, w2) \<Rightarrow>
          (case enrichModel en
                  (spread [own_props model,
                           [(''generateId'', Uuid),
                            (''modelName'', JStr (toUpperCase en n))]]) w2 of
             (Inl e, w3) \<Rightarrow> (Inl e, w3)
           | (Inr b, w3) \<Rightarrow> (Inr (JObj True b), w3)))"
  using assms
  by (simp add: createModel_def checkModelName_def Model_create_def invoke_def freeze_def
      split: prod.splits sum.splits)

lemma createEvent_registered_eq:
  assumes "toUpperCase en et \<in> {''CREATE'', ''UPDATE'', ''DELETE''}"
    and "ef_get (eventFactories w) (toUpperCase en et) = Some m"
    and "map_has m (toUpperCase en n)"
    and "map_get m (toUpperCase en n) = g"
    and "is_function g"
  shows "createEvent en this (JStr et) (JStr n) args w =
     (case call en g args (w\<lparr>trace := trace w @ [Invoke g args]\<rparr>) of
        (Inl e, w3) \<Rightarrow> (Inl e, w3)
      | (Inr event, w3) \<Rightarrow>
          (case enrichEvent en
                  (spread [own_props event,
                           [(''generateId'', Uuid),
                            (''modelName'', JStr (toUpperCase en n)),
                            (''eventType'', JStr (toUpperCase en et))]]) w3 of
             (Inl e, w4) \<Rightarrow> (Inl e, w4)
           | (Inr b, w4) \<Rightarrow> (Inr (JObj True b), w4)))"
  using assms(2-5) checkEventType_JStr[OF assms(1)]
  by (simp add: createEvent_def checkModelName_def invoke_def freeze_def
      split: prod.splits sum.splits)

section \<open>Registration policies\<close>

text \<open>
  Claim C2. Models: once \<open>registerModel\<close> has been called for a name with a callable \<open>f\<close>, a
  later \<open>registerModel\<close> for the same name with any \<open>g\<close> returns normally and leaves the
  world as it was; and when \<open>f\<close> was the first registration for the name, \<open>f\<close> is the entry
  that stays, and a later \<open>createModel\<close> for the name calls \<open>f\<close> on the arguments: it logs
  that one invocation, rejects with what the call of \<open>f\<close> rejects with, and otherwise
  returns what the call of \<open>f\<close> resolved to, passed through the model pipeline and frozen.
  Events: after \<open>registerEvent\<close> for a pair with any \<open>f\<close>, a later \<open>registerEvent\<close> for the
  same pair with a callable \<open>g\<close> makes \<open>g\<close> the entry, and a later \<open>createEvent\<close> for the
  pair calls \<open>g\<close> on the arguments in the same sense. Names are compared by the host's
  \<open>toUpperCase\<close>, of which nothing is assumed.
\<close>

theorem registration_policies:
  "(is_function f \<longrightarrow>
      (let w1 = snd (registerModel en this (JStr n) f w) in
         registerModel en this (JStr n) g w1 = (Inr (), w1) \<and>
         (\<not> map_has (modelFactories w) (toUpperCase en n) \<longrightarrow>
            map_get (modelFactories w1) (toUpperCase en n) = f \<and>
            createModel en this (JStr n) args w1 =
              (case call en f args (w1\<lparr>trace := trace w1 @ [Invoke f args]\<rparr>) of
                 (Inl e, w2) \<Rightarrow> (Inl e, w2)
               | (Inr model, w2) \<Rightarrow>
                   (case enrichModel en
                           (spread [own_props model,
                                    [(''generateId'', Uuid),
                                     (''modelName'', JStr (toUpperCase en n))]]) w2 of
                      (Inl e, w3) \<Rightarrow> (Inl e, w3)
                    | (Inr b, w3) \<Rightarrow> (Inr (JObj True b), w3))) \<and>
            trace (snd (createModel en this (JStr n) args w1)) = trace w1 @ [Invoke f args]))) \<and>
   (is_function g \<and> toUpperCase en et \<in> {''CREATE'', ''UPDATE'', ''DELETE''} \<longrightarrow>
      (let w2 = snd (registerEvent en this (JStr et) (JStr n) g
                  (snd (registerEvent en this (JStr et) (JStr n) f w))) in
         (\<exists>m. ef_get (eventFactories w2) (toUpperCase en et) = Some m \<and>
              map_get m (toUpperCase en n) = g) \<and>
         createEvent en this (JStr et) (JStr n) args w2 =
           (case call en g args (w2\<lparr>trace := trace w2 @ [Invoke g args]\<rparr>) of
              (Inl e, w3) \<Rightarrow> (Inl e, w3)
            | (Inr event, w3) \<Rightarrow>
                (case enrichEvent en
                        (spread [own_props event,
                                 [(''generateId'', Uuid),
                                  (''modelName'', JStr (toUpperCase en n)),
                                  (''eventType'', JStr (toUpperCase en et))]]) w3 of
                   (Inl e, w4) \<Rightarrow> (Inl e, w4)
                 | (Inr b, w4) \<Rightarrow> (Inr (JObj True b), w4))) \<and>
         trace (snd (createEvent en this (JStr et) (JStr n) args w2)) =
           trace w2 @ [Invoke g args]))"
proof (intro conjI impI)
  assume f: "is_function f"
  let ?N = "toUpperCase en n"
  let ?w1 = "snd (registerModel en this (JStr n) f w)"
  have has: "map_has (modelFactories ?w1) ?N"
    using f by (cases "map_has (modelFactories w) ?N")
      (simp_all add: registerModel_fresh registerModel_present map_has_set)
  have 1: "registerModel en this (JStr n) g ?w1 = (Inr (), ?w1)"
    by (rule registerModel_present[OF has])
  have 2: "map_get (modelFactories ?w1) ?N = f \<and>
            createModel en this (JStr n) args ?w1 =
              (case call en f args (?w1\<lparr>trace := trace ?w1 @ [Invoke f args]\<rparr>) of
                 (Inl e, w2) \<Rightarrow> (Inl e, w2)
               | (Inr model, w2) \<Rightarrow>
                   (case enrichModel en
                           (spread [own_props model,
                                    [(''generateId'', Uuid), (''modelName'', JStr ?N)]]) w2 of
                      (Inl e, w3) \<Rightarrow> (Inl e, w3)
                    | (Inr b, w3) \<Rightarrow> (Inr (JObj True b), w3))) \<and>
            trace (snd (createModel en this (JStr n) args ?w1)) = trace ?w1 @ [Invoke f args]"
    if fresh: "\<not> map_has (modelFactories w) ?N"
  proof -
    have get: "map_get (modelFactories ?w1) ?N = f"
      using fresh f by (simp add: registerModel_fresh map_get_set)
    have eq: "createModel en this (JStr n) args ?w1 =
              (case call en f args (?w1\<lparr>trace := trace ?w1 @ [Invoke f args]\<rparr>) of
                 (Inl e, w2) \<Rightarrow> (Inl e, w2)
               | (Inr model, w2) \<Rightarrow>
                   (case enrichModel en
                           (spread [own_props model,
                                    [(''generateId'', Uuid), (''modelName'', JStr ?N)]]) w2 of
                      (Inl e, w3) \<Rightarrow> (Inl e, w3)
                    | (Inr b, w3) \<Rightarrow> (Inr (JObj True b), w3)))"
      by (rule createModel_registered_eq[OF has get f])
    have tr: "trace (snd (createModel en this (JStr n) args ?w1)) = trace ?w1 @ [Invoke f args]"
      using createModel_trace[OF has, of this args] f by (simp add: get)
    from get eq tr show ?thesis by (intro conjI)
  qed
  from 1 2
  show "let w1 = snd (registerModel en this (JStr n) f w) in
         registerModel en this (JStr n) g w1 = (Inr (), w1) \<and>
         (\<not> map_has (modelFactories w) (toUpperCase en n) \<longrightarrow>
            map_get (modelFactories w1) (toUpperCase en n) = f \<and>
            createModel en this (JStr n) args w1 =
              (case call en f args (w1\<lparr>trace := trace w1 @ [Invoke f args]\<rparr>) of
                 (Inl e, w2) \<Rightarrow> (Inl e, w2)
               | (Inr model, w2) \<Rightarrow>
                   (case enrichModel en
                           (spread [own_props model,
                                    [(''generateId'', Uuid),
                                     (''modelName'', JStr (toUpperCase en n))]]) w2 of
                      (Inl e, w3) \<Rightarrow> (Inl e, w3)
                    | (Inr b, w3) \<Rightarrow> (Inr (JObj True b), w3))) \<and>
            trace (snd (createModel en this (JStr n) args w1)) = trace w1 @ [Invoke f args])"
    unfolding Let_def by blast
next
  assume a: "is_function g \<and> toUpperCase en et \<in> {''CREATE'', ''UPDATE'', ''DELETE''}"
  then have g: "is_function g"
    and et: "toUpperCase en et \<in> {''CREATE'', ''UPDATE'', ''DELETE''}"
    by simp_all
  let ?N = "toUpperCase en n" and ?T = "toUpperCase en et"
  let ?w1 = "snd (registerEvent en this (JStr et) (JStr n) f w)"
  let ?w2 = "snd (registerEvent en this (JStr et) (JStr n) g ?w1)"
  from registerEvent_callable[OF et g, of ?w1 this n] obtain m where
    m: "ef_get (eventFactories ?w1) ?T = Some m" and
    w2: "?w2 = ?w1\<lparr>eventFactories := ef_put (eventFactories ?w1) ?T (map_set m ?N g)\<rparr>"
    by auto
  let ?m2 = "map_set m ?N g"
  have m2: "ef_get (eventFactories ?w2) ?T = Some ?m2"
    using et by (simp only: w2) (auto simp: ef_get_put)
  have get: "map_get ?m2 ?N = g" by (simp add: map_get_set)
  have has: "map_has ?m2 ?N" by (simp add: map_has_set)
  have 1: "\<exists>m. ef_get (eventFactories ?w2) ?T = Some m \<and> map_get m ?N = g"
    using m2 get by blast
  have 2: "createEvent en this (JStr et) (JStr n) args ?w2 =
           (case call en g args (?w2\<lparr>trace := trace ?w2 @ [Invoke g args]\<rparr>) of
              (Inl e, w3) \<Rightarrow> (Inl e, w3)
            | (Inr event, w3) \<Rightarrow>
                (case enrichEvent en
                        (spread [own_props event,
                                 [(''generateId'', Uuid), (''modelName'', JStr ?N),
                                  (''eventType'', JStr ?T)]]) w3 of
                   (Inl e, w4) \<Rightarrow> (Inl e, w4)
                 | (Inr b, w4) \<Rightarrow> (Inr (JObj True b), w4)))"
    by (rule createEvent_registered_eq[OF et m2 has get g])
  have 3: "trace (snd (createEvent en this (JStr et) (JStr n) args ?w2)) =
          trace ?w2 @ [Invoke g args]"
    using createEvent_trace[OF et m2 has, of this args] g by (simp add: get)
  from 1 2 3
  show "let w2 = snd (registerEvent en this (JStr et) (JStr n) g
                  (snd (registerEvent en this (JStr et) (JStr n) f w))) in
         (\<exists>m. ef_get (eventFactories w2) (toUpperCase en et) = Some m \<and>
              map_get m (toUpperCase en n) = g) \<and>
         createEvent en this (JStr et) (JStr n) args w2 =
           (case call en g args (w2\<lparr>trace := trace w2 @ [Invoke g args]\<rparr>) of
              (Inl e, w3) \<Rightarrow> (Inl e, w3)
            | (Inr event, w3) \<Rightarrow>
                (case enrichEvent en
                        (spread [own_props event,
                                 [(''generateId'', Uuid),
                                  (''modelName'', JStr (toUpperCase en n)),
                                  (''eventType'', JStr (toUpperCase en et))]]) w3 of
                   (Inl e, w4) \<Rightarrow> (Inl e, w4)
                 | (Inr b, w4) \<Rightarrow> (Inr (JObj True b), w4))) \<and>
         trace (snd (createEvent en this (JStr et) (JStr n) args w2)) =
           trace w2 @ [Invoke g args]"
    unfolding Let_def by (intro conjI)
qed

theorem registration_policies_witness:
  "is_function (Ext 0) \<and> is_function (Ext 1) \<and>
   \<not> map_has (modelFactories empty_world) (toUpperCase demo_env ''Order'') \<and>
   toUpperCase demo_env ''create'' \<in> {''CREATE'', ''UPDATE'', ''DELETE''} \<and>
   (let w1 = snd (registerModel demo_env (Instance 0) (JStr ''Order'') (Ext 0) empty_world) in
      registerModel demo_env (Instance 0) (JStr ''Order'') (Ext 1) w1 = (Inr (), w1) \<and>
      map_get (modelFactories w1) (toUpperCase demo_env ''Order'') = Ext 0 \<and>
      createModel demo_env (Instance 0) (JStr ''Order'') JNull w1 =
        (case call demo_env (Ext 0) JNull (w1\<lparr>trace := trace w1 @ [Invoke (Ext 0) JNull]\<rparr>) of
           (Inl e, w2) \<Rightarrow> (Inl e, w2)
         | (Inr model, w2) \<Rightarrow>
             (case enrichModel demo_env
                     (spread [own_props model,
                              [(''generateId'', Uuid),
                               (''modelName'', JStr (toUpperCase demo_env ''Order''))]]) w2 of
                (Inl e, w3) \<Rightarrow> (Inl e, w3)
              | (Inr b, w3) \<Rightarrow> (Inr (JObj True b), w3))) \<and>
      trace (snd (createModel demo_env (Instance 0) (JStr ''Order'') JNull w1)) =
        trace w1 @ [Invoke (Ext 0) JNull]) \<and>
   (let w2 = snd (registerEvent demo_env (Instance 0) (JStr ''create'') (JStr ''Order'') (Ext 1)
               (snd (registerEvent demo_env (Instance 0) (JStr ''create'') (JStr ''Order'')
                  (Ext 0) empty_world))) in
      (\<exists>m. ef_get (eventFactories w2) (toUpperCase demo_env ''create'') = Some m \<and>
           map_get m (toUpperCase demo_env ''Order'') = Ext 1) \<and>
      createEvent demo_env (Instance 0) (JStr ''create'') (JStr ''Order'') JNull w2 =
        (case call demo_env (Ext 1) JNull (w2\<lparr>trace := trace w2 @ [Invoke (Ext 1) JNull]\<rparr>) of
           (Inl e, w3) \<Rightarrow> (Inl e, w3)
         | (Inr event, w3) \<Rightarrow>
             (case enrichEvent demo_env
                     (spread [own_props event,
                              [(''generateId'', Uuid),
                               (''modelName'', JStr (toUpperCase demo_env ''Order'')),
                               (''eventType'', JStr (toUpperCase demo_env ''create''))]]) w3 of
                (Inl e, w4) \<Rightarrow> (Inl e, w4)
              | (Inr b, w4) \<Rightarrow> (Inr (JObj True b), w4))) \<and>
      trace (snd (createEvent demo_env (Instance 0) (JStr ''create'') (JStr ''Order'') JNull w2)) =
        trace w2 @ [Invoke (Ext 1) JNull]) \<and>
   createModel demo_env (Instance 0) (JStr ''Order'') JNull
     (snd (registerModel demo_env (Instance 0) (JStr ''Order'') (Ext 1)
        (snd (registerModel demo_env (Instance 0) (JStr ''Order'') (Ext 0) empty_world)))) =
   (Inr (JObj True
      [(''total'', JNum 100), (''generateId'', Uuid), (''modelName'', JStr ''ORDER''),
       (''id'', JStr ''u''), (''getId'', Getter (JStr ''u'')),
       (''getModelName'', Getter (JStr ''ORDER'')), (''createTime'', JStr ''now'')]),
    empty_world\<lparr>modelFactories := [(''ORDER'', Ext 0)], idsIssued := 1, clockReads := 1,
                 trace := [Invoke (Ext 0) JNull]\<rparr>) \<and>
   createEvent demo_env (Instance 0) (JStr ''create'') (JStr ''Order'') (JStr ''x'')
     (snd (registerEvent demo_env (Instance 0) (JStr ''create'') (JStr ''Order'') (Ext 1)
        (snd (registerEvent demo_env (Instance 0) (JStr ''create'') (JStr ''Order'') (Ext 0)
           empty_world)))) =
   (Inr (JObj True
      [(''0'', JStr ''x''), (''generateId'', Uuid), (''modelName'', JStr ''ORDER''),
       (''eventType'', JStr ''CREATE''), (''id'', JStr ''u''), (''getId'', Getter (JStr ''u'')),
       (''eventName'', JStr ''CREATEORDER''), (''getEventName'', Getter (JStr ''CREATEORDER'')),
       (''createTime'', JStr ''now'')]),
    empty_world\<lparr>eventFactories := \<lparr>CREATE = [(''ORDER'', Ext 1)], UPDATE = [], DELETE = []\<rparr>,
                 idsIssued := 1, clockReads := 1,
                 trace := [Invoke (Ext 1) (JStr ''x'')]\<rparr>)"
proof -
  have a: "is_function (Ext 0)" "is_function (Ext 1)"
    by (simp_all add: is_function_def)
  have b: "\<not> map_has (modelFactories empty_world) (toUpperCase demo_env ''Order'')"
    by (simp add: empty_world_def map_has_def)
  have c: "toUpperCase demo_env ''create'' \<in> {''CREATE'', ''UPDATE'', ''DELETE''}"
    by code_simp
  have d: "createModel demo_env (Instance 0) (JStr ''Order'') JNull
     (snd (registerModel demo_env (Instance 0) (JStr ''Order'') (Ext 1)
        (snd (registerModel demo_env (Instance 0) (JStr ''Order'') (Ext 0) empty_world)))) =
   (Inr (JObj True
      [(''total'', JNum 100), (''generateId'', Uuid), (''modelName'', JStr ''ORDER''),
       (''id'', JStr ''u''), (''getId'', Getter (JStr ''u'')),
       (''getModelName'', Getter (JStr ''ORDER'')), (''createTime'', JStr ''now'')]),
    empty_world\<lparr>modelFactories := [(''ORDER'', Ext 0)], idsIssued := 1, clockReads := 1,
                 trace := [Invoke (Ext 0) JNull]\<rparr>)"
    by code_simp
  have e: "createEvent demo_env (Instance 0) (JStr ''create'') (JStr ''Order'') (JStr ''x'')
     (snd (registerEvent demo_env (Instance 0) (JStr ''create'') (JStr ''Order'') (Ext 1)
        (snd (registerEvent demo_env (Instance 0) (JStr ''create'') (JStr ''Order'') (Ext 0)
           empty_world)))) =
   (Inr (JObj True
      [(''0'', JStr ''x''), (''generateId'', Uuid), (''modelName'', JStr ''ORDER''),
       (''eventType'', JStr ''CREATE''), (''id'', JStr ''u''), (''getId'', Getter (JStr ''u'')),
       (''eventName'', JStr ''CREATEORDER''), (''getEventName'', Getter (JStr ''CREATEORDER'')),
       (''createTime'', JStr ''now'')]),
    empty_world\<lparr>eventFactories := \<lparr>CREATE = [(''ORDER'', Ext 1)], UPDATE = [], DELETE = []\<rparr>,
                 idsIssued := 1, clockReads := 1,
                 trace := [Invoke (Ext 1) (JStr ''x'')]\<rparr>)"
    by code_simp
  from registration_policies
         [of "Ext 0" demo_env "Instance 0" "''Order''" empty_world "Ext 1" JNull "''create''"]
       a b c d e
  show ?thesis unfolding Let_def by blast
qed

section \<open>What \<open>createModel\<close> returns\<close>







section \<open>Case-insensitive model-type names\<close>




section \<open>Immutability of created instances\<close>

lemma Model_create_Inr_obj:
  "Model_create en f args n w = (Inr model, w') \<Longrightarrow> \<exists>b. model = JObj False b"
  by (auto simp: Model_create_def split: prod.splits sum.splits)

lemma createModel_Inr_frozen:
  assumes "createModel en this mn args w = (Inr v, w')"
  shows "\<exists>b. v = JObj True b"
proof -
  from assms obtain n where n: "checkModelName en mn = Inr n"
    by (cases "checkModelName en mn") (auto simp: createModel_def)
  from assms n have has: "map_has (modelFactories w) n"
    by (auto simp: createModel_def split: if_splits)
  obtain r w1 where mc: "Model_create en (map_get (modelFactories w) n) args n w = (r, w1)"
    by (cases "Model_create en (map_get (modelFactories w) n) args n w")
  from assms n has mc obtain model where r: "r = Inr model" and v: "v = freeze model"
    by (cases r) (auto simp: createModel_def)
  from Model_create_Inr_obj[OF mc[unfolded r]] v show ?thesis
    by (auto simp: freeze_def)
qed

text \<open>
  Claim C5. Every value that \<open>createModel\<close> or \<open>createEvent\<close> returns is a frozen object:
  assigning to any attribute of it, new or existing, with any value raises a
  \<^verbatim>\<open>TypeError\<close> in strict code and is ignored in sloppy code, and in neither case
  is the object other than it was.
\<close>

theorem created_instances_frozen:
  "createModel en this mn args w = (Inr v, w') \<or>
   createEvent en this et mn args w = (Inr v, w') \<longrightarrow>
     (\<exists>b. v = JObj True b) \<and>
     (\<forall>k x. setProp True v k x = Inl TypeError \<and> setProp False v k x = Inr v)"
proof
  assume "createModel en this mn args w = (Inr v, w') \<or>
          createEvent en this et mn args w = (Inr v, w')"
  then have "\<exists>b. v = JObj True b"
  proof
    assume "createModel en this mn args w = (Inr v, w')"
    then show ?thesis by (rule createModel_Inr_frozen)
  next
    assume "createEvent en this et mn args w = (Inr v, w')"
    from createEvent_Inr[OF this] show ?thesis by blast
  qed
  then show "(\<exists>b. v = JObj True b) \<and>
     (\<forall>k x. setProp True v k x = Inl TypeError \<and> setProp False v k x = Inr v)"
    by (auto simp: setProp_def)
qed

theorem created_instances_frozen_witness:
  "createModel demo_env (Instance 0) (JStr ''order'') JNull
     (snd (registerModel demo_env (Instance 0) (JStr ''order'') (Ext 0) empty_world)) =
   (Inr (JObj True
      [(''total'', JNum 100), (''generateId'', Uuid), (''modelName'', JStr ''ORDER''),
       (''id'', JStr ''u''), (''getId'', Getter (JStr ''u'')),
       (''getModelName'', Getter (JStr ''ORDER'')), (''createTime'', JStr ''now'')]),
    empty_world\<lparr>modelFactories := [(''ORDER'', Ext 0)], idsIssued := 1, clockReads := 1,
                 trace := [Invoke (Ext 0) JNull]\<rparr>) \<and>
   (\<forall>k x. setProp True (JObj True
      [(''total'', JNum 100), (''generateId'', Uuid), (''modelName'', JStr ''ORDER''),
       (''id'', JStr ''u''), (''getId'', Getter (JStr ''u'')),
       (''getModelName'', Getter (JStr ''ORDER'')), (''createTime'', JStr ''now'')]) k x =
     Inl TypeError \<and>
    setProp False (JObj True
      [(''total'', JNum 100), (''generateId'', Uuid), (''modelName'', JStr ''ORDER''),
       (''id'', JStr ''u''), (''getId'', Getter (JStr ''u'')),
       (''getModelName'', Getter (JStr ''ORDER'')), (''createTime'', JStr ''now'')]) k x =
     Inr (JObj True
      [(''total'', JNum 100), (''generateId'', Uuid), (''modelName'', JStr ''ORDER''),
       (''id'', JStr ''u''), (''getId'', Getter (JStr ''u'')),
       (''getModelName'', Getter (JStr ''ORDER'')), (''createTime'', JStr ''now'')])) \<and>
   createEvent demo_env (Instance 0) (JStr ''create'') (JStr ''order'') JNull
     (snd (registerEvent demo_env (Instance 0) (JStr ''CREATE'') (JStr ''Order'') (Ext 1)
        empty_world)) =
   (Inr (JObj True
      [(''generateId'', Uuid), (''modelName'', JStr ''ORDER''), (''eventType'', JStr ''CREATE''),
       (''id'', JStr ''u''), (''getId'', Getter (JStr ''u'')),
       (''eventName'', JStr ''CREATEORDER''), (''getEventName'', Getter (JStr ''CREATEORDER'')),
       (''createTime'', JStr ''now'')]),
    empty_world\<lparr>eventFactories := \<lparr>CREATE = [(''ORDER'', Ext 1)], UPDATE = [], DELETE = []\<rparr>,
                 idsIssued := 1, clockReads := 1, trace := [Invoke (Ext 1) JNull]\<rparr>) \<and>
   (\<forall>k x. setProp True (JObj True
      [(''generateId'', Uuid), (''modelName'', JStr ''ORDER''), (''eventType'', JStr ''CREATE''),
       (''id'', JStr ''u''), (''getId'', Getter (JStr ''u'')),
       (''eventName'', JStr ''CREATEORDER''), (''getEventName'', Getter (JStr ''CREATEORDER'')),
       (''createTime'', JStr ''now'')]) k x = Inl TypeError)"
proof -
  have h: "createModel demo_env (Instance 0) (JStr ''order'') JNull
     (snd (registerModel demo_env (Instance 0) (JStr ''order'') (Ext 0) empty_world)) =
   (Inr (JObj True
      [(''total'', JNum 100), (''generateId'', Uuid), (''modelName'', JStr ''ORDER''),
       (''id'', JStr ''u''), (''getId'', Getter (JStr ''u'')),
       (''getModelName'', Getter (JStr ''ORDER'')), (''createTime'', JStr ''now'')]),
    empty_world\<lparr>modelFactories := [(''ORDER'', Ext 0)], idsIssued := 1, clockReads := 1,
                 trace := [Invoke (Ext 0) JNull]\<rparr>)"
    by code_simp
  have h2: "createEvent demo_env (Instance 0) (JStr ''create'') (JStr ''order'') JNull
     (snd (registerEvent demo_env (Instance 0) (JStr ''CREATE'') (JStr ''Order'') (Ext 1)
        empty_world)) =
   (Inr (JObj True
      [(''generateId'', Uuid), (''modelName'', JStr ''ORDER''), (''eventType'', JStr ''CREATE''),
       (''id'', JStr ''u''), (''getId'', Getter (JStr ''u'')),
       (''eventName'', JStr ''CREATEORDER''), (''getEventName'', Getter (JStr ''CREATEORDER'')),
       (''createTime'', JStr ''now'')]),
    empty_world\<lparr>eventFactories := \<lparr>CREATE = [(''ORDER'', Ext 1)], UPDATE = [], DELETE = []\<rparr>,
                 idsIssued := 1, clockReads := 1, trace := [Invoke (Ext 1) JNull]\<rparr>)"
    by code_simp
  from created_instances_frozen
         [of demo_env "Instance 0" "JStr ''order''" JNull
             "snd (registerModel demo_env (Instance 0) (JStr ''order'') (Ext 0) empty_world)"
             _ _ JNull]
       created_instances_frozen
         [of demo_env "Instance 0" "JStr ''order''" JNull
             "snd (registerEvent demo_env (Instance 0) (JStr ''CREATE'') (JStr ''Order'') (Ext 1)
                empty_world)" _ _ "JStr ''create''"]
       h h2
  show ?thesis by blast
qed

section \<open>Creating a registered model\<close>



section \<open>The order of effects in the add-model use case\<close>











text \<open>
  The same scenario with a repository that rejects: the save is the last effect, the
  observer is never notified, and the caller receives the repository's rejection.
\<close>

lemma addModel_save_rejected:
  "addModel demo_env
     (demo_param\<lparr>repository_save := (\<lambda>mid model. Inl (Rejected (JStr ''disk full'')))\<rparr>)
     (JObj False [(''total'', JNum 100)]) order_world =
   (Inl (Rejected (JStr ''disk full'')),
    order_world\<lparr>idsIssued := 2, clockReads := 2,
      trace := [Invoke (Ext 0) (JObj False [(''total'', JNum 100)]),
       Invoke (Ext 1) (JObj True
        [(''total'', JNum 100), (''generateId'', Uuid), (''modelName'', JStr ''ORDER''),
         (''id'', JStr ''u''), (''getId'', Getter (JStr ''u'')),
         (''getModelName'', Getter (JStr ''ORDER'')), (''createTime'', JStr ''now'')]),
       Save (JStr ''u'') (JObj True
        [(''total'', JNum 100), (''generateId'', Uuid), (''modelName'', JStr ''ORDER''),
         (''id'', JStr ''u''), (''getId'', Getter (JStr ''u'')),
         (''getModelName'', Getter (JStr ''ORDER'')), (''createTime'', JStr ''now'')])]\<rparr>)"
  by code_simp

end
